theory Spec2Isabelle
  imports
    Complex_Main
    "HOL-Library.Multiset"
    "HOL-Library.Char_ord"
    "HOL-Library.List_Lexorder"
    "HOL-Library.Product_Lexorder"
begin

section \<open>Errors\<close>

text \<open>
  The Python exceptions that the modelled code can raise.
  \<^item> \<open>KeyError\<close>: \<^verbatim>\<open>segments_by_shape.get_group\<close> on a shape without segments,
    \<^verbatim>\<open>.loc[reference_hour]\<close> on an hour that is no label of the pivot table, and the
    pivot table or the join on \<^verbatim>\<open>segment_id\<close> of an hourly rollup that has no row.
  \<^item> \<open>MultipleModes\<close>: the \<^verbatim>\<open>ValueError\<close> raised by \<^verbatim>\<open>strictmode\<close>; its message
    embeds \<^verbatim>\<open>s.value_counts()\<close>, kept here as the multiset of the non-missing values
    (every value with its number of occurrences, the order of the listing left out).
  \<^item> \<open>ItemError\<close>: the \<^verbatim>\<open>ValueError\<close> of \<^verbatim>\<open>Series.item()\<close> on a series that does not hold
    exactly one element.
  \<^item> \<open>IndexError\<close>: \<^verbatim>\<open>self.directions[direction]\<close> out of range.
  \<^item> \<open>OutOfBoundsDatetime\<close>: \<^verbatim>\<open>pd.to_datetime(..., unit="s")\<close> on an instant that does not fit
    a 64-bit count of nanoseconds.
  \<^item> \<open>NaiveGeometries\<close>: the \<^verbatim>\<open>ValueError\<close> "Cannot transform naive geometries" of
    \<^verbatim>\<open>to_crs\<close> on a frame that has no coordinate reference system.
\<close>

datatype error =
    KeyError
  | MultipleModes "int multiset"
  | ItemError
  | IndexError
  | OutOfBoundsDatetime
  | NaiveGeometries

section \<open>The strict mode aggregate\<close>

text \<open>
  \<^verbatim>\<open>
  def strictmode(s: pd.Series):
      mode = pd.Series.mode(s)
      if len(mode) > 1:
          print(s.name)
          raise ValueError(f"Multiple modes found: {s.value_counts()}")
      return mode.item()
  \<close>
  A series is a list of cells; a missing cell (NaN) is \<open>None\<close>. \<^verbatim>\<open>Series.mode\<close> and
  \<^verbatim>\<open>Series.value_counts\<close> both leave missing cells out (\<^verbatim>\<open>dropna=True\<close>).
  \<^verbatim>\<open>Series.mode\<close> returns every value that occurs most often, in ascending order.
  The \<^verbatim>\<open>print\<close> writes the series' name to standard output and is not modelled.
\<close>

definition dropna :: "'a option list \<Rightarrow> 'a list" where
  "dropna s = concat (map (\<lambda>c. case c of None \<Rightarrow> [] | Some v \<Rightarrow> [v]) s)"

definition max_count :: "int list \<Rightarrow> nat" where
  "max_count vs = fold max (map (count_list vs) vs) 0"

definition mode :: "int option list \<Rightarrow> int list" where
  "mode s =
     (let vs = dropna s
      in sort (remdups (filter (\<lambda>v. count_list vs v = max_count vs) vs)))"

definition value_counts :: "int option list \<Rightarrow> int multiset" where
  "value_counts s = mset (dropna s)"

definition strictmode :: "int option list \<Rightarrow> error + int" where
  "strictmode s =
     (let m = mode s
      in if length m > 1 then Inl (MultipleModes (value_counts s))
         else (case m of [v] \<Rightarrow> Inr v | _ \<Rightarrow> Inl ItemError))"

text \<open>A value is most frequent in \<open>vs\<close> when it occurs there and no value occurs more often.\<close>

definition most_frequent :: "int list \<Rightarrow> int \<Rightarrow> bool" where
  "most_frequent vs v \<longleftrightarrow> v \<in> set vs \<and> (\<forall>u \<in> set vs. count_list vs u \<le> count_list vs v)"


section \<open>Data model\<close>

text \<open>
  Timestamps are POSIX seconds, as the table stores them; the conversion to the time zone
  \<^verbatim>\<open>TIMEZONE = "America/Vancouver"\<close> keeps the instant and only decides the clock hour.
  Floating point columns are real numbers: rounding is not modelled. A point is a pair of
  coordinates \<open>(x, y)\<close>, a line string the list of its vertices.
\<close>

type_synonym point = "real \<times> real"
type_synonym linestring = "point list"

datatype crs = WGS84 | EPSG26910

text \<open>A row of the table \<^verbatim>\<open>vehicle_positions\<close>, with the columns the query selects.\<close>

record db_row =
  latitude :: real
  longitude :: real
  start_time :: int
  timestamp :: int
  speed :: real
  odometer :: real
  vehicle_id :: string
  route_id :: string
  direction_id :: int
  stop_id :: string
  current_status :: string
  trip_id :: string

text \<open>
  A row of the frame that \<^verbatim>\<open>_vehicle_positions\<close> returns: the label of the row (the
  \<^verbatim>\<open>RangeIndex\<close> of \<^verbatim>\<open>read_sql_query\<close>), the columns read, and the derived columns. The
  column \<^verbatim>\<open>timestamp_binned\<close> (the timestamp rounded to the hour) is read by no operation
  and is left out.
\<close>

record vehicle_position =
  ix :: nat
  row :: db_row
  hour_of_day :: int
  speed_km :: real
  geometry :: point

text \<open>A row of \<^verbatim>\<open>feed.segments\<close>: one stop-to-stop stretch of one shape.\<close>

record segment =
  seg_shape_id :: string
  seg_route_id :: string
  seg_direction_id :: int
  stop_sequence :: int
  segment_id :: string
  start_stop_id :: string
  start_stop_name :: string
  end_stop_id :: string
  end_stop_name :: string
  distance_m :: real
  seg_geometry :: linestring

text \<open>A row of \<^verbatim>\<open>feed.trips_patterns\<close>: the shape and the pattern of a trip.\<close>

record trips_pattern =
  tp_trip_id :: string
  tp_route_id :: string
  tp_direction_id :: int
  shape_id :: string
  pattern_name :: string

record feed =
  segments :: "segment list"
  trips_patterns :: "trips_pattern list"

text \<open>
  A row of the frame that \<^verbatim>\<open>points\<close> builds: a position with the row of
  \<^verbatim>\<open>trips_patterns\<close> joined to it and the segment that \<^verbatim>\<open>sjoin_nearest\<close> attached. The
  column \<^verbatim>\<open>shape\<close> of the source is \<open>seg_geometry (jsegment r)\<close>: the copy of the segment's
  geometry made before the join, in the projected coordinates.
\<close>

record joined_point =
  position :: vehicle_position
  pattern :: trips_pattern
  jsegment :: segment

text \<open>A geo frame: its rows and the coordinate reference system of its active geometry.\<close>

record 'a frame =
  frame_crs :: crs
  frame_rows :: "'a list"

text \<open>
  The libraries and data the code relies on and that are not part of it:
  \<^item> \<open>utcoffset t\<close>: the offset from UTC of America/Vancouver at the instant \<open>t\<close>, in
    seconds, as the time zone database gives it;
  \<^item> \<open>transform a b\<close>: the coordinate transformation from the reference system \<open>a\<close> to
    \<open>b\<close> (pyproj, behind \<^verbatim>\<open>to_crs\<close>);
  \<^item> \<open>distance p g\<close>: the distance between a point and a line string (GEOS, behind
    \<^verbatim>\<open>sjoin_nearest\<close>), in the units of their coordinates.
\<close>

record world =
  utcoffset :: "int \<Rightarrow> int"
  transform :: "crs \<Rightarrow> crs \<Rightarrow> point \<Rightarrow> point"
  distance :: "point \<Rightarrow> linestring \<Rightarrow> real"

text \<open>
  The state of a \<^verbatim>\<open>RouteInfo\<close>. \<open>db_path\<close> stands for the table that the connection string
  names; \<open>directions\<close> is the tuple of the two direction labels; \<open>ri_segments\<close> and
  \<open>ri_point_data\<close> are the private fields \<^verbatim>\<open>_segments\<close> and \<^verbatim>\<open>_point_data\<close>.
\<close>

record route_info =
  ri_feed :: feed
  db_path :: "db_row list"
  route :: string
  directions :: "string list"
  ri_segments :: "segment list"
  ri_point_data :: "int \<rightharpoonup> joined_point frame"

section \<open>The spatial join\<close>

text \<open>
  \<^verbatim>\<open>
  def __init__(self, feed, db_path, route, directions):
      self.feed = feed
      self.db_path = db_path
      self.route = route
      self.directions = directions
      self._segments = feed.segments.query("route_id == @route")
      self._point_data = {}
  \<close>
\<close>

definition init :: "feed \<Rightarrow> db_row list \<Rightarrow> string \<Rightarrow> string list \<Rightarrow> route_info" where
  "init fd db r ds =
     \<lparr>ri_feed = fd, db_path = db, route = r, directions = ds,
      ri_segments = filter (\<lambda>s. seg_route_id s = r) (segments fd),
      ri_point_data = Map.empty\<rparr>"

text \<open>The clock hour \<^verbatim>\<open>.dt.hour\<close> of an instant in the time zone.\<close>

definition dt_hour :: "world \<Rightarrow> int \<Rightarrow> int" where
  "dt_hour w t = ((t + utcoffset w t) div 3600) mod 24"

text \<open>
  The query of \<^verbatim>\<open>_vehicle_positions\<close>:
  \<^verbatim>\<open>select ... from vehicle_positions
  where route_id = :route and direction_id = :direction order by timestamp\<close>.
  SQL leaves the order of rows with equal timestamps open; the model keeps the table's.
\<close>

definition read_sql_query :: "db_row list \<Rightarrow> string \<Rightarrow> int \<Rightarrow> db_row list" where
  "read_sql_query table r d =
     sort_key timestamp (filter (\<lambda>x. route_id x = r \<and> direction_id x = d) table)"

text \<open>
  \<^verbatim>\<open>pd.to_datetime(column, unit="s", utc=True)\<close> keeps an instant as a 64-bit count of
  nanoseconds and raises \<^verbatim>\<open>OutOfBoundsDatetime\<close> for a count of seconds that does not fit.
\<close>

definition datetime_in_bounds :: "int \<Rightarrow> bool" where
  "datetime_in_bounds t \<longleftrightarrow> - 9223372036 \<le> t \<and> t \<le> 9223372036"

text \<open>
  The frame that \<^verbatim>\<open>_vehicle_positions\<close> builds from the rows read: each row with its
  label, its clock hour, its speed in km/h and its point
  \<^verbatim>\<open>points_from_xy(longitude, latitude)\<close>, in WGS 84.
\<close>

definition position_frame :: "world \<Rightarrow> db_row list \<Rightarrow> vehicle_position frame" where
  "position_frame w xs =
     \<lparr>frame_crs = WGS84,
      frame_rows =
        map (\<lambda>(i, x).
               \<lparr>ix = i, row = x, hour_of_day = dt_hour w (timestamp x),
                speed_km = speed x * (36 / 10), geometry = (longitude x, latitude x)\<rparr>)
          (enumerate 0 xs)\<rparr>"

text \<open>
  \<^verbatim>\<open>_vehicle_positions\<close>: the query, the conversion of the columns \<^verbatim>\<open>timestamp\<close> and
  \<^verbatim>\<open>start_time\<close>, which fails when an instant is out of bounds, and the frame.
\<close>

definition vehicle_positions ::
  "world \<Rightarrow> route_info \<Rightarrow> int \<Rightarrow> error + vehicle_position frame" where
  "vehicle_positions w ri direction =
     (let xs = read_sql_query (db_path ri) (route ri) direction
      in if list_all (\<lambda>x. datetime_in_bounds (timestamp x)) xs \<and>
            list_all (\<lambda>x. datetime_in_bounds (start_time x)) xs
         then Inr (position_frame w xs)
         else Inl OutOfBoundsDatetime)"

text \<open>
  \<^verbatim>\<open>to_crs\<close> returns a new frame whose active geometry is transformed to the target system;
  the frame it is called on is left as it is. Other geometry columns (\<^verbatim>\<open>shape\<close>) are not
  touched.
\<close>

definition to_crs_positions ::
  "world \<Rightarrow> crs \<Rightarrow> vehicle_position frame \<Rightarrow> vehicle_position frame" where
  "to_crs_positions w target f =
     \<lparr>frame_crs = target,
      frame_rows = map (\<lambda>v. v\<lparr>geometry := transform w (frame_crs f) target (geometry v)\<rparr>)
                     (frame_rows f)\<rparr>"

definition to_crs_segments :: "world \<Rightarrow> crs \<Rightarrow> segment frame \<Rightarrow> segment frame" where
  "to_crs_segments w target f =
     \<lparr>frame_crs = target,
      frame_rows =
        map (\<lambda>s. s\<lparr>seg_geometry := map (transform w (frame_crs f) target) (seg_geometry s)\<rparr>)
          (frame_rows f)\<rparr>"

definition to_crs_points :: "world \<Rightarrow> crs \<Rightarrow> joined_point frame \<Rightarrow> joined_point frame" where
  "to_crs_points w target f =
     \<lparr>frame_crs = target,
      frame_rows =
        map (\<lambda>r. r\<lparr>position :=
                     (position r)\<lparr>geometry :=
                        transform w (frame_crs f) target (geometry (position r))\<rparr>\<rparr>)
          (frame_rows f)\<rparr>"

text \<open>
  \<^verbatim>\<open>vehicle_positions.join(trips_patterns.set_index(join_cols), on=join_cols)\<close>, a left join
  on \<^verbatim>\<open>["trip_id", "route_id", "direction_id"]\<close>: a position is repeated for every row of
  \<^verbatim>\<open>trips_patterns\<close> with its key and gets missing values when there is none.
\<close>

definition join_patterns ::
  "trips_pattern list \<Rightarrow> vehicle_position list \<Rightarrow> (vehicle_position \<times> trips_pattern option) list" where
  "join_patterns tps vs =
     concat (map (\<lambda>v.
       (case filter (\<lambda>t. tp_trip_id t = trip_id (row v) \<and> tp_route_id t = route_id (row v) \<and>
                          tp_direction_id t = direction_id (row v)) tps of
          [] \<Rightarrow> [(v, None)]
        | ms \<Rightarrow> map (\<lambda>t. (v, Some t)) ms)) vs)"

text \<open>
  \<^verbatim>\<open>x.sjoin_nearest(right, max_distance=12, rsuffix="segment")\<close>, an inner join: a row of
  the left frame is joined to every row of the right frame that is nearest to it, provided
  that distance is at most \<^verbatim>\<open>max_distance\<close>; rows at equal nearest distance all appear, and a
  left row with nothing within \<^verbatim>\<open>max_distance\<close> does not appear.
\<close>

definition nearest :: "world \<Rightarrow> real \<Rightarrow> point \<Rightarrow> segment list \<Rightarrow> segment list" where
  "nearest w max_distance p right =
     (let near = filter (\<lambda>s. distance w p (seg_geometry s) \<le> max_distance) right
      in filter (\<lambda>s. list_all (\<lambda>s'. distance w p (seg_geometry s) \<le> distance w p (seg_geometry s'))
                        near) near)"

definition sjoin_nearest ::
  "world \<Rightarrow> real \<Rightarrow> (vehicle_position \<times> trips_pattern) list \<Rightarrow> segment list \<Rightarrow> joined_point list" where
  "sjoin_nearest w max_distance left right =
     concat (map (\<lambda>(v, t).
       map (\<lambda>s. \<lparr>position = v, pattern = t, jsegment = s\<rparr>)
         (nearest w max_distance (geometry v) right)) left)"

text \<open>
  \<^verbatim>\<open>groupby("shape_id")\<close> leaves out the rows whose key is missing. There is one group
  for every key that occurs, with the rows of that key in their order. pandas lists the
  groups sorted by key; here they are listed in the order of \<open>remdups\<close>, and no operation
  below depends on the order of the groups.
\<close>

definition with_shape ::
  "(vehicle_position \<times> trips_pattern option) list \<Rightarrow> (vehicle_position \<times> trips_pattern) list" where
  "with_shape xs = concat (map (\<lambda>(v, t). case t of None \<Rightarrow> [] | Some t' \<Rightarrow> [(v, t')]) xs)"

definition shape_groups ::
  "(vehicle_position \<times> trips_pattern) list \<Rightarrow> (string \<times> (vehicle_position \<times> trips_pattern) list) list" where
  "shape_groups xs =
     map (\<lambda>k. (k, filter (\<lambda>(v, t). shape_id t = k) xs)) (remdups (map (\<lambda>(v, t). shape_id t) xs))"

text \<open>\<^verbatim>\<open>segments_by_shape.get_group(name)\<close> raises \<^verbatim>\<open>KeyError\<close> when no segment has the key.\<close>

definition get_group :: "segment list \<Rightarrow> string \<Rightarrow> error + segment list" where
  "get_group route_segments k =
     (case filter (\<lambda>s. seg_shape_id s = k) route_segments of
        [] \<Rightarrow> Inl KeyError
      | g \<Rightarrow> Inr g)"

text \<open>
  \<^verbatim>\<open>groupby("shape_id").apply(lambda x: x.sjoin_nearest(segments_by_shape.get_group(x.name),
  max_distance=12, rsuffix="segment"))\<close>: the groups in turn, their results concatenated;
  the first exception ends the call.
\<close>

fun apply_groups ::
  "world \<Rightarrow> segment list \<Rightarrow> (string \<times> (vehicle_position \<times> trips_pattern) list) list \<Rightarrow>
     error + joined_point list" where
  "apply_groups w route_segments [] = Inr []"
| "apply_groups w route_segments ((k, x) # gs) =
     (case get_group route_segments k of
        Inl e \<Rightarrow> Inl e
      | Inr g \<Rightarrow>
          (case apply_groups w route_segments gs of
             Inl e \<Rightarrow> Inl e
           | Inr rs \<Rightarrow> Inr (sjoin_nearest w 12 x g @ rs)))"

text \<open>
  \<^verbatim>\<open>
  def points(self, direction):
      points = self._point_data.get(direction)
      if points is None:
          vehicle_positions = self._vehicle_positions(direction)
          route_segments = self._segments.query("direction_id == @direction")
          route_segments = route_segments.to_crs("EPSG:26910")
          route_segments["shape"] = route_segments["geometry"]
          segments_by_shape = route_segments.groupby("shape_id")
          join_cols = ["trip_id", "route_id", "direction_id"]
          vehicle_positions = vehicle_positions.to_crs("EPSG:26910").join(
              self.feed.trips_patterns.set_index(join_cols), on=join_cols)
          points = vehicle_positions.groupby("shape_id").apply(...)
          self._point_data[direction] = points.to_crs("WGS-84")
      return points
  \<close>
  The result is the frame returned and the state after the call. On a miss the frame
  stored in the cache is \<^verbatim>\<open>points.to_crs("WGS-84")\<close>, and the frame returned is \<^verbatim>\<open>points\<close>.
  The segments of the feed are in WGS 84, as the positions are. \<open>route_segments\<close> is the
  local variable of that name after \<^verbatim>\<open>to_crs\<close>, \<open>patterned_positions\<close> the local variable
  \<^verbatim>\<open>vehicle_positions\<close> after the join, computed from the frame of \<^verbatim>\<open>_vehicle_positions\<close>,
  and \<open>joined\<close> the rows of the frame that \<^verbatim>\<open>groupby("shape_id").apply\<close> builds. When
  there is no group at all (no position has a shape: no position was read, or no trip of
  a position is in \<^verbatim>\<open>trips_patterns\<close>), \<^verbatim>\<open>apply\<close> returns an empty frame without a coordinate
  reference system, \<^verbatim>\<open>points.to_crs("WGS-84")\<close> raises and nothing is cached. When there are
  groups, the result carries the reference system of the positions, also when no position
  is within the tolerance and the frame has no row.
\<close>

definition route_segments :: "world \<Rightarrow> route_info \<Rightarrow> int \<Rightarrow> segment list" where
  "route_segments w ri direction =
     frame_rows (to_crs_segments w EPSG26910
       \<lparr>frame_crs = WGS84,
        frame_rows = filter (\<lambda>s. seg_direction_id s = direction) (ri_segments ri)\<rparr>)"

definition patterned_positions ::
  "world \<Rightarrow> route_info \<Rightarrow> int \<Rightarrow> (vehicle_position \<times> trips_pattern option) list" where
  "patterned_positions w ri direction =
     join_patterns (trips_patterns (ri_feed ri))
       (frame_rows (to_crs_positions w EPSG26910
          (position_frame w (read_sql_query (db_path ri) (route ri) direction))))"

definition joined ::
  "world \<Rightarrow> route_info \<Rightarrow> int \<Rightarrow> error + joined_point list" where
  "joined w ri direction =
     apply_groups w (route_segments w ri direction)
       (shape_groups (with_shape (patterned_positions w ri direction)))"

definition points ::
  "world \<Rightarrow> route_info \<Rightarrow> int \<Rightarrow> error + (joined_point frame \<times> route_info)" where
  "points w ri direction =
     (case ri_point_data ri direction of
        Some pts \<Rightarrow> Inr (pts, ri)
      | None \<Rightarrow>
          (case vehicle_positions w ri direction of
             Inl e \<Rightarrow> Inl e
           | Inr vehicle_positions' \<Rightarrow>
               (case joined w ri direction of
                  Inl e \<Rightarrow> Inl e
                | Inr rs \<Rightarrow>
                    if shape_groups (with_shape (patterned_positions w ri direction)) = []
                    then Inl NaiveGeometries
                    else
                      (let pts = \<lparr>frame_crs = EPSG26910, frame_rows = rs\<rparr>
                       in Inr (pts,
                            ri\<lparr>ri_point_data :=
                                 (ri_point_data ri)(direction \<mapsto> to_crs_points w WGS84 pts)\<rparr>)))))"

text \<open>
  The segments that \<^verbatim>\<open>sjoin_nearest\<close> attaches to a position \<open>v\<close> whose trip has the pattern
  row \<open>t\<close>: the nearest ones, within 12 units, among the segments of the shape of \<open>t\<close>.
\<close>

definition shape_group :: "world \<Rightarrow> route_info \<Rightarrow> int \<Rightarrow> string \<Rightarrow> segment list" where
  "shape_group w ri direction k =
     filter (\<lambda>s. seg_shape_id s = k) (route_segments w ri direction)"

definition matches ::
  "world \<Rightarrow> route_info \<Rightarrow> int \<Rightarrow> vehicle_position \<times> trips_pattern \<Rightarrow> segment list" where
  "matches w ri direction x =
     nearest w 12 (geometry (fst x)) (shape_group w ri direction (shape_id (snd x)))"

text \<open>The rows that a position with its pattern row contributes to the joined frame.\<close>

definition rows_of ::
  "world \<Rightarrow> route_info \<Rightarrow> int \<Rightarrow> vehicle_position \<times> trips_pattern \<Rightarrow> joined_point list" where
  "rows_of w ri direction x =
     map (\<lambda>s. \<lparr>position = fst x, pattern = snd x, jsegment = s\<rparr>) (matches w ri direction x)"

text \<open>The rows of a joined frame that belong to the position report with label \<open>i\<close>.\<close>

definition rows_for_ping :: "nat \<Rightarrow> joined_point frame \<Rightarrow> joined_point list" where
  "rows_for_ping i pts = filter (\<lambda>r. ix (position r) = i) (frame_rows pts)"

text \<open>The key of a row of \<^verbatim>\<open>trips_patterns\<close> in the join with the positions.\<close>

definition join_key :: "trips_pattern \<Rightarrow> string \<times> string \<times> int" where
  "join_key t = (tp_trip_id t, tp_route_id t, tp_direction_id t)"


section \<open>Example data\<close>

text \<open>
  A small world and a small route, used to run the definitions on concrete inputs. The
  stand-ins for the libraries are simple on purpose: the transformation scales the
  coordinates by 1000, the distance is the least city-block distance to a vertex, and the
  offset from UTC is the constant seven hours of Pacific Daylight Time.
\<close>

definition l1 :: "point \<Rightarrow> point \<Rightarrow> real" where
  "l1 p q = \<bar>fst p - fst q\<bar> + \<bar>snd p - snd q\<bar>"

definition ex_world :: world where
  "ex_world =
     \<lparr>utcoffset = (\<lambda>t. - 25200),
      transform = (\<lambda>a b p. if a = b then p
                            else if b = EPSG26910 then (fst p * 1000, snd p * 1000)
                            else (fst p / 1000, snd p / 1000)),
      distance = (\<lambda>p g. case g of [] \<Rightarrow> 0 | v # vs \<Rightarrow> fold min (map (l1 p) vs) (l1 p v))\<rparr>"

text \<open>A position report of trip T1 on route 6-VIC, direction 0, at instant \<open>t\<close>.\<close>

definition ex_row :: "int \<Rightarrow> real \<Rightarrow> real \<Rightarrow> db_row" where
  "ex_row t x y =
     \<lparr>latitude = y, longitude = x, start_time = 1725893400, timestamp = t, speed = 10,
      odometer = 0, vehicle_id = ''V1'', route_id = ''6-VIC'', direction_id = 0,
      stop_id = ''100'', current_status = ''IN_TRANSIT_TO'', trip_id = ''T1''\<rparr>"

text \<open>A segment of shape S1 of route 6-VIC, direction 0.\<close>

definition ex_segment :: "string \<Rightarrow> int \<Rightarrow> linestring \<Rightarrow> segment" where
  "ex_segment sid n g =
     \<lparr>seg_shape_id = ''S1'', seg_route_id = ''6-VIC'', seg_direction_id = 0,
      stop_sequence = n, segment_id = sid, start_stop_id = ''100'',
      start_stop_name = ''Alpha'', end_stop_id = ''101'', end_stop_name = ''Beta'',
      distance_m = 100, seg_geometry = g\<rparr>"

definition ex_pattern :: trips_pattern where
  "ex_pattern =
     \<lparr>tp_trip_id = ''T1'', tp_route_id = ''6-VIC'', tp_direction_id = 0,
      shape_id = ''S1'', pattern_name = ''P1''\<rparr>"

text \<open>
  One segment from (0, 0) to (0.1, 0) and three reports of one trip next to it, at
  08:00:00, 08:00:30 and 08:01:00 local time on 2024-09-09.
\<close>

definition ex_route :: route_info where
  "ex_route =
     init \<lparr>segments = [ex_segment ''100-101'' 1 [(0, 0), (1 / 10, 0)]],
           trips_patterns = [ex_pattern]\<rparr>
       [ex_row 1725894000 (1 / 1000) (2 / 1000),
        ex_row 1725894030 (3 / 1000) (2 / 1000),
        ex_row 1725894060 (5 / 1000) (2 / 1000)]
       ''6-VIC'' [''Royal Oak'', ''Downtown'']"

text \<open>
  Two consecutive segments that meet at (0.1, 0), and one report nearest to that common
  vertex.
\<close>

definition ex_corner :: route_info where
  "ex_corner =
     init \<lparr>segments = [ex_segment ''100-101'' 1 [(0, 0), (1 / 10, 0)],
                       ex_segment ''101-102'' 2 [(1 / 10, 0), (1 / 10, 1 / 10)]],
           trips_patterns = [ex_pattern]\<rparr>
       [ex_row 1725894000 (103 / 1000) (- 2 / 1000)]
       ''6-VIC'' [''Royal Oak'', ''Downtown'']"

text \<open>One segment, one report 3 units from its first vertex and one report 70 units away.\<close>

definition ex_far :: route_info where
  "ex_far =
     init \<lparr>segments = [ex_segment ''100-101'' 1 [(0, 0), (1 / 10, 0)]],
           trips_patterns = [ex_pattern]\<rparr>
       [ex_row 1725894000 (1 / 1000) (2 / 1000),
        ex_row 1725894030 (50 / 1000) (20 / 1000)]
       ''6-VIC'' [''Royal Oak'', ''Downtown'']"


section \<open>The aggregation layer\<close>

text \<open>
  \<^verbatim>\<open>groupby(keys)\<close> on rows whose keys are not missing: one group for every key that
  occurs, holding the rows of that key in their order. The groups are listed in the order
  of \<open>remdups\<close> (pandas sorts them by key); no operation below depends on that order.
\<close>

definition groupby :: "('a \<Rightarrow> 'k) \<Rightarrow> 'a list \<Rightarrow> ('k \<times> 'a list) list" where
  "groupby key xs = map (\<lambda>k. (k, filter (\<lambda>x. key x = k) xs)) (remdups (map key xs))"

text \<open>
  The aggregates \<^verbatim>\<open>median\<close> and \<^verbatim>\<open>mean\<close>. The median of an even number of values is the
  mean of the two in the middle. Both are taken of groups, which are never empty.
\<close>

definition median :: "int list \<Rightarrow> real" where
  "median xs =
     (let s = sort xs; n = length s
      in if odd n then real_of_int (s ! (n div 2))
         else (real_of_int (s ! (n div 2 - 1)) + real_of_int (s ! (n div 2))) / 2)"

definition mean :: "real list \<Rightarrow> real" where
  "mean xs = sum_list xs / real (length xs)"

text \<open>
  The sample standard deviation of \<^verbatim>\<open>describe\<close>, missing (NaN) for fewer than two values,
  and its percentiles, by linear interpolation between the two nearest ranks.
\<close>

definition std :: "real list \<Rightarrow> real option" where
  "std xs =
     (if length xs < 2 then None
      else Some (sqrt (sum_list (map (\<lambda>x. (x - mean xs)\<^sup>2) xs) / real (length xs - 1))))"

definition quantile :: "real \<Rightarrow> real list \<Rightarrow> real" where
  "quantile q xs =
     (let s = sort xs; pos = q * real (length s - 1); lo = nat \<lfloor>pos\<rfloor>; hi = nat \<lceil>pos\<rceil>
      in s ! lo + (pos - real lo) * (s ! hi - s ! lo))"

subsection \<open>Per-segment hourly statistics\<close>

text \<open>
  \<^verbatim>\<open>
  segment_times = gpd.GeoDataFrame(
      points.groupby(["segment_id", "trip_id", "start_time", "shape"])
      .agg({"timestamp": ["min", "max", "median"]})
      .droplevel(0, axis=1).reset_index()
      .rename(columns={"shape": "geometry", "min": "enter_time", "max": "exit_time"}))
  segment_times["travel_time"] = (
      segment_times["exit_time"] - segment_times["enter_time"]).dt.total_seconds()
  segment_times["hour_of_day"] = segment_times.pop("median").dt.hour
  \<close>
  A row of \<^verbatim>\<open>segment_times\<close> is one crossing: one trip on one segment.
\<close>

record segment_time =
  st_segment_id :: string
  st_trip_id :: string
  st_start_time :: int
  st_geometry :: linestring
  enter_time :: int
  exit_time :: int
  travel_time :: real
  st_hour_of_day :: int

definition crossing_key :: "joined_point \<Rightarrow> string \<times> string \<times> int \<times> linestring" where
  "crossing_key r =
     (segment_id (jsegment r), trip_id (row (position r)), start_time (row (position r)),
      seg_geometry (jsegment r))"

definition segment_times :: "world \<Rightarrow> joined_point frame \<Rightarrow> segment_time list" where
  "segment_times w pts =
     map (\<lambda>((sid, tid, st, g), rs).
            (let ts = map (\<lambda>r. timestamp (row (position r))) rs
             in \<lparr>st_segment_id = sid, st_trip_id = tid, st_start_time = st, st_geometry = g,
                 enter_time = Min (set ts), exit_time = Max (set ts),
                 travel_time = real_of_int (Max (set ts) - Min (set ts)),
                 st_hour_of_day = dt_hour w \<lfloor>median ts\<rfloor>\<rparr>))
       (groupby crossing_key (frame_rows pts))"

text \<open>
  \<^verbatim>\<open>
  hourly_segment_times = gpd.GeoDataFrame(
      segment_times.query("travel_time > 0")
      .groupby(["segment_id", "hour_of_day", "geometry"])
      .agg({"travel_time": "describe"})
      .droplevel(0, axis=1).reset_index())
  \<close>
\<close>

record hourly_stat =
  hs_segment_id :: string
  hs_hour_of_day :: int
  hs_geometry :: linestring
  stat_count :: nat
  stat_mean :: real
  stat_std :: "real option"
  stat_min :: real
  stat_q25 :: real
  stat_q50 :: real
  stat_q75 :: real
  stat_max :: real

definition hourly_key :: "segment_time \<Rightarrow> string \<times> int \<times> linestring" where
  "hourly_key c = (st_segment_id c, st_hour_of_day c, st_geometry c)"

definition describe_group ::
  "(string \<times> int \<times> linestring) \<times> segment_time list \<Rightarrow> hourly_stat" where
  "describe_group = (\<lambda>((sid, h, g), cs).
     (let xs = map travel_time cs
      in \<lparr>hs_segment_id = sid, hs_hour_of_day = h, hs_geometry = g,
          stat_count = length xs, stat_mean = mean xs, stat_std = std xs,
          stat_min = Min (set xs), stat_q25 = quantile (1 / 4) xs,
          stat_q50 = quantile (1 / 2) xs, stat_q75 = quantile (3 / 4) xs,
          stat_max = Max (set xs)\<rparr>))"

definition hourly_segment_times :: "segment_time list \<Rightarrow> hourly_stat list" where
  "hourly_segment_times segment_times' =
     map describe_group
       (groupby hourly_key (filter (\<lambda>c. travel_time c > 0) segment_times'))"

text \<open>
  \<^verbatim>\<open>
  ref_times = (
      hourly_segment_times.pivot_table(
          index="hour_of_day", columns="segment_id", values="mean")
      .loc[reference_hour]
      .fillna(0)[hourly_segment_times["segment_id"]]
      .reset_index(drop=True))
  cmp_times = hourly_segment_times[time_col]
  time_col = f"{time_col}_diff_{reference_hour:02d}"
  hourly_segment_times[time_col] = cmp_times - ref_times
  \<close>
  A cell of the pivot table is the mean (the default \<^verbatim>\<open>aggfunc\<close>) of the \<^verbatim>\<open>mean\<close> column over
  the rows with that hour and that segment id, and is missing when there is no such row.
  \<^verbatim>\<open>.loc[reference_hour]\<close> raises \<^verbatim>\<open>KeyError\<close> when no row at all has the reference hour.
  Both series of the subtraction are labelled 0, 1, ..., so it is row by row.
\<close>

definition pivot_table :: "hourly_stat list \<Rightarrow> int \<Rightarrow> string \<Rightarrow> real option" where
  "pivot_table rows h sid =
     (case map stat_mean (filter (\<lambda>r. hs_hour_of_day r = h \<and> hs_segment_id r = sid) rows) of
        [] \<Rightarrow> None
      | ms \<Rightarrow> Some (mean ms))"

definition ref_times :: "hourly_stat list \<Rightarrow> int \<Rightarrow> error + real list" where
  "ref_times rows reference_hour =
     (if reference_hour \<notin> set (map hs_hour_of_day rows) then Inl KeyError
      else Inr (map (\<lambda>r. case pivot_table rows reference_hour (hs_segment_id r) of
                           None \<Rightarrow> 0
                         | Some m \<Rightarrow> m) rows))"

text \<open>
  The rows of \<^verbatim>\<open>hourly_segment_times\<close> with the differential column: missing when no
  reference hour is given, \<^verbatim>\<open>cmp_times - ref_times\<close> otherwise.
\<close>

definition with_reference ::
  "hourly_stat list \<Rightarrow> int option \<Rightarrow> error + (hourly_stat \<times> real option) list" where
  "with_reference rows reference_hour =
     (case reference_hour of
        None \<Rightarrow> Inr (map (\<lambda>r. (r, None)) rows)
      | Some h \<Rightarrow>
          (case ref_times rows h of
             Inl e \<Rightarrow> Inl e
           | Inr ref \<Rightarrow> Inr (map (\<lambda>(r, m). (r, Some (stat_mean r - m))) (zip rows ref))))"

text \<open>The statistics of a joined frame: lines 223 to 256 of \<^verbatim>\<open>plot_hourly\<close>.\<close>

definition hourly_statistics ::
  "world \<Rightarrow> joined_point frame \<Rightarrow> int option \<Rightarrow> error + (hourly_stat \<times> real option) list" where
  "hourly_statistics w pts reference_hour =
     with_reference (hourly_segment_times (segment_times w pts)) reference_hour"

subsection \<open>Per-crossing distributions\<close>

text \<open>
  \<^verbatim>\<open>
  segment_times = (
      points.groupby(["pattern_name", "segment_id", "start_stop_name", "start_stop_id",
                      "end_stop_name", "end_stop_id", "trip_id", "start_time", "shape"])
      .agg({"timestamp": ["min", "max", "median"], "stop_sequence": [strictmode]})
      .droplevel(0, axis=1).reset_index()
      .rename(columns={"min": "enter_time", "max": "exit_time",
                       "strictmode": "stop_sequence"}))
  travel_times = segment_times["exit_time"] - segment_times["enter_time"]
  segment_times["travel_time"] = travel_times.dt.total_seconds()
  segment_times["hour_of_day"] = segment_times.pop("median").dt.hour
  \<close>
  An exception of \<open>strictmode\<close> in a group ends the aggregation.
\<close>

record crossing =
  c_pattern_name :: string
  c_segment_id :: string
  c_start_stop_name :: string
  c_start_stop_id :: string
  c_end_stop_name :: string
  c_end_stop_id :: string
  c_trip_id :: string
  c_start_time :: int
  c_shape :: linestring
  c_enter_time :: int
  c_exit_time :: int
  c_stop_sequence :: int
  c_travel_time :: real
  c_hour_of_day :: int

type_synonym distribution_key =
  "string \<times> string \<times> string \<times> string \<times> string \<times> string \<times> string \<times> int \<times> linestring"

definition distribution_key :: "joined_point \<Rightarrow> distribution_key" where
  "distribution_key r =
     (pattern_name (pattern r), segment_id (jsegment r), start_stop_name (jsegment r),
      start_stop_id (jsegment r), end_stop_name (jsegment r), end_stop_id (jsegment r),
      trip_id (row (position r)), start_time (row (position r)), seg_geometry (jsegment r))"

definition agg_crossing ::
  "world \<Rightarrow> distribution_key \<times> joined_point list \<Rightarrow> error + crossing" where
  "agg_crossing w = (\<lambda>((pn, sid, ssn, ssi, esn, esi, tid, st, g), rs).
     (let ts = map (\<lambda>r. timestamp (row (position r))) rs
      in case strictmode (map (\<lambda>r. Some (stop_sequence (jsegment r))) rs) of
           Inl e \<Rightarrow> Inl e
         | Inr sq \<Rightarrow>
             Inr \<lparr>c_pattern_name = pn, c_segment_id = sid, c_start_stop_name = ssn,
                  c_start_stop_id = ssi, c_end_stop_name = esn, c_end_stop_id = esi,
                  c_trip_id = tid, c_start_time = st, c_shape = g,
                  c_enter_time = Min (set ts), c_exit_time = Max (set ts),
                  c_stop_sequence = sq,
                  c_travel_time = real_of_int (Max (set ts) - Min (set ts)),
                  c_hour_of_day = dt_hour w \<lfloor>median ts\<rfloor>\<rparr>))"

text \<open>The results of the groups in turn; the first exception ends the call.\<close>

fun collect :: "(error + 'a) list \<Rightarrow> error + 'a list" where
  "collect [] = Inr []"
| "collect (Inl e # xs) = Inl e"
| "collect (Inr x # xs) = (case collect xs of Inl e \<Rightarrow> Inl e | Inr ys \<Rightarrow> Inr (x # ys))"

definition distribution_times :: "world \<Rightarrow> joined_point frame \<Rightarrow> error + crossing list" where
  "distribution_times w pts =
     collect (map (agg_crossing w) (groupby distribution_key (frame_rows pts)))"

text \<open>
  \<^verbatim>\<open>
  hourly_segment_times = segment_times.query(
      "travel_time > 0 and travel_time < @clip_threshold")
  hourly_segment_times["segment_name"] = (
      segment_times["start_stop_name"] + " ... " + segment_times["end_stop_name"])
  hourly_segment_times.sort_values(
      ["hour_of_day", "pattern_name", "stop_sequence"], inplace=True)
  \<close>
  The new column is aligned on the row labels, so every row that is kept gets the name
  made of its own two stop names.
\<close>

record distribution_row =
  dr_crossing :: crossing
  segment_name :: string

definition hourly_distribution_times :: "real \<Rightarrow> crossing list \<Rightarrow> distribution_row list" where
  "hourly_distribution_times clip_threshold segment_times' =
     sort_key (\<lambda>d. (c_hour_of_day (dr_crossing d), c_pattern_name (dr_crossing d),
                     c_stop_sequence (dr_crossing d)))
       (map (\<lambda>c. \<lparr>dr_crossing = c,
                   segment_name = c_start_stop_name c @ '' ... '' @ c_end_stop_name c\<rparr>)
          (filter (\<lambda>c. c_travel_time c > 0 \<and> c_travel_time c < clip_threshold) segment_times'))"

text \<open>The distribution rows of a joined frame: lines 317 to 354 of \<^verbatim>\<open>plot_hourly_distributions\<close>.\<close>

definition hourly_distributions ::
  "world \<Rightarrow> real \<Rightarrow> joined_point frame \<Rightarrow> error + distribution_row list" where
  "hourly_distributions w clip_threshold pts =
     (case distribution_times w pts of
        Inl e \<Rightarrow> Inl e
      | Inr segment_times' \<Rightarrow> Inr (hourly_distribution_times clip_threshold segment_times'))"

text \<open>
  The crossings that a row of the hourly statistics stands for: those with a positive
  travel time that have the row's segment id, hour of day and geometry. When a segment id
  comes with one geometry only, these are the crossings of the segment in that hour.
\<close>

definition bucket :: "segment_time list \<Rightarrow> hourly_stat \<Rightarrow> segment_time list" where
  "bucket cs r =
     filter (\<lambda>c. travel_time c > 0 \<and> st_segment_id c = hs_segment_id r \<and>
                  st_hour_of_day c = hs_hour_of_day r \<and> st_geometry c = hs_geometry r) cs"

definition segment_hour :: "segment_time list \<Rightarrow> string \<Rightarrow> int \<Rightarrow> segment_time list" where
  "segment_hour cs sid h =
     filter (\<lambda>c. travel_time c > 0 \<and> st_segment_id c = sid \<and> st_hour_of_day c = h) cs"

text \<open>Every segment id among the crossings comes with one geometry.\<close>

definition one_geometry :: "segment_time list \<Rightarrow> bool" where
  "one_geometry cs \<longleftrightarrow>
     (\<forall>c \<in> set cs. \<forall>c' \<in> set cs. st_segment_id c = st_segment_id c' \<longrightarrow> st_geometry c = st_geometry c')"

text \<open>The columns of a crossing that were the keys of its group.\<close>

definition crossing_key_of :: "crossing \<Rightarrow> distribution_key" where
  "crossing_key_of c =
     (c_pattern_name c, c_segment_id c, c_start_stop_name c, c_start_stop_id c,
      c_end_stop_name c, c_end_stop_id c, c_trip_id c, c_start_time c, c_shape c)"


section \<open>The visualisation layer\<close>

text \<open>
  A figure is kept as the name of the plotly chart and the data handed to it; colours,
  map style, zoom, height, hover columns and the other cosmetic arguments are left out.
\<close>

datatype figure =
    ScatterMapbox "joined_point frame"
  | DensityMapbox "joined_point frame"
  | ChoroplethMapbox string "(hourly_stat \<times> real option \<times> segment option) list"
  | Box "distribution_row list" "string list"

text \<open>
  A file written by \<^verbatim>\<open>fig.write_html(save_dir / filename, auto_play=False,
  include_plotlyjs="cdn")\<close>: the directory, the file name and the figure.
\<close>

type_synonym html_file = "string \<times> string \<times> figure"

text \<open>Python's \<^verbatim>\<open>str\<close> of an integer, and of an optional integer.\<close>

fun str_nat :: "nat \<Rightarrow> string" where
  "str_nat n =
     (if n < 10 then [''0123456789'' ! n]
      else str_nat (n div 10) @ [''0123456789'' ! (n mod 10)])"

definition str_int :: "int \<Rightarrow> string" where
  "str_int i = (if i < 0 then CHR ''-'' # str_nat (nat (- i)) else str_nat (nat i))"

definition str_optional :: "int option \<Rightarrow> string" where
  "str_optional x = (case x of None \<Rightarrow> ''None'' | Some i \<Rightarrow> str_int i)"

text \<open>The format \<^verbatim>\<open>{reference_hour:02d}\<close>: at least two characters, filled with zeros.\<close>

definition format_02d :: "int \<Rightarrow> string" where
  "format_02d i =
     (if 0 \<le> i \<and> i < 10 then CHR ''0'' # str_int i else str_int i)"

text \<open>
  Indexing a tuple, \<^verbatim>\<open>self.directions[direction]\<close>: an index below zero counts from the end,
  an index out of range raises \<^verbatim>\<open>IndexError\<close>.
\<close>

definition getitem :: "'a list \<Rightarrow> int \<Rightarrow> error + 'a" where
  "getitem xs i =
     (let n = int (length xs)
      in if 0 \<le> i \<and> i < n then Inr (xs ! nat i)
         else if - n \<le> i \<and> i < 0 then Inr (xs ! nat (n + i))
         else Inl IndexError)"

text \<open>
  The block that ends each of the four plot functions, with its own suffix \<open>view\<close>:
  \<^verbatim>\<open>
  if save_dir is not None:
      filename = f"{direction}-{self.directions[direction]}_points.html"
      fig.write_html(save_dir / filename, auto_play=False, include_plotlyjs="cdn")
  \<close>
  The result is the list of the files written. \<open>html_name\<close> is the f-string, with the
  suffix as a parameter.
\<close>

definition html_name :: "int \<Rightarrow> string \<Rightarrow> string \<Rightarrow> string" where
  "html_name direction label view = str_int direction @ ''-'' @ label @ ''_'' @ view @ ''.html''"

definition write_html ::
  "route_info \<Rightarrow> int \<Rightarrow> string option \<Rightarrow> string \<Rightarrow> figure \<Rightarrow> error + html_file list" where
  "write_html ri direction save_dir view fig =
     (case save_dir of
        None \<Rightarrow> Inr []
      | Some dir \<Rightarrow>
          (case getitem (directions ri) direction of
             Inl e \<Rightarrow> Inl e
           | Inr label \<Rightarrow>
               Inr [(dir, html_name direction label view, fig)]))"

text \<open>
  The plot functions return the figure and the files written, or the exception raised,
  together with the state of the \<^verbatim>\<open>RouteInfo\<close> after the call.
\<close>

type_synonym plot_result = "(error + figure \<times> html_file list) \<times> route_info"

definition finish ::
  "route_info \<Rightarrow> int \<Rightarrow> string option \<Rightarrow> string \<Rightarrow> figure \<Rightarrow> plot_result" where
  "finish ri direction save_dir view fig =
     (case write_html ri direction save_dir view fig of
        Inl e \<Rightarrow> (Inl e, ri)
      | Inr files \<Rightarrow> (Inr (fig, files), ri))"

text \<open>\<^verbatim>\<open>plot_points\<close>: a scatter map of all joined points; file suffix \<^verbatim>\<open>points\<close>.\<close>

definition plot_points :: "world \<Rightarrow> route_info \<Rightarrow> int \<Rightarrow> string option \<Rightarrow> plot_result" where
  "plot_points w ri direction save_dir =
     (case points w ri direction of
        Inl e \<Rightarrow> (Inl e, ri)
      | Inr (pts, ri') \<Rightarrow> finish ri' direction save_dir ''points'' (ScatterMapbox pts))"

text \<open>
  \<^verbatim>\<open>plot_slow_zones\<close>: a density map of \<^verbatim>\<open>self.points(direction).query("speed_km <
  @threshold")\<close>; file suffix \<^verbatim>\<open>slow_zones\<close>.
\<close>

definition plot_slow_zones ::
  "world \<Rightarrow> route_info \<Rightarrow> int \<Rightarrow> real \<Rightarrow> string option \<Rightarrow> plot_result" where
  "plot_slow_zones w ri direction threshold save_dir =
     (case points w ri direction of
        Inl e \<Rightarrow> (Inl e, ri)
      | Inr (pts, ri') \<Rightarrow>
          finish ri' direction save_dir ''slow_zones''
            (DensityMapbox
               (pts\<lparr>frame_rows := filter (\<lambda>r. speed_km (position r) < threshold) (frame_rows pts)\<rparr>)))"

text \<open>
  \<^verbatim>\<open>plot_hourly\<close>. After the statistics:
  \<^verbatim>\<open>
  hourly_segment_times = hourly_segment_times.join(
      self._segments.set_index("segment_id").drop(columns=["geometry"]), on="segment_id")
  hourly_segment_times.sort_values("hour_of_day", inplace=True)
  \<close>
  a left join, which repeats a row for every segment of the route with its segment id. A
  rollup without rows has no column \<^verbatim>\<open>segment_id\<close>, and the join raises \<^verbatim>\<open>KeyError\<close>. The
  figure is coloured by the column \<open>time_col\<close>. The file name is
  \<^verbatim>\<open>f"{direction}-{self.directions[direction]}_hourly_{reference_hour}.html"\<close>.
\<close>

definition time_col :: "int option \<Rightarrow> string" where
  "time_col reference_hour =
     (case reference_hour of None \<Rightarrow> ''mean'' | Some h \<Rightarrow> ''mean_diff_'' @ format_02d h)"

definition join_segments ::
  "segment list \<Rightarrow> (hourly_stat \<times> real option) list \<Rightarrow>
     (hourly_stat \<times> real option \<times> segment option) list" where
  "join_segments segs rows =
     concat (map (\<lambda>(r, d).
       (case filter (\<lambda>s. segment_id s = hs_segment_id r) segs of
          [] \<Rightarrow> [(r, d, None)]
        | ms \<Rightarrow> map (\<lambda>s. (r, d, Some s)) ms)) rows)"

definition plot_hourly ::
  "world \<Rightarrow> route_info \<Rightarrow> int \<Rightarrow> int option \<Rightarrow> string option \<Rightarrow> plot_result" where
  "plot_hourly w ri direction reference_hour save_dir =
     (case points w ri direction of
        Inl e \<Rightarrow> (Inl e, ri)
      | Inr (pts, ri') \<Rightarrow>
          (case hourly_statistics w pts reference_hour of
             Inl e \<Rightarrow> (Inl e, ri')
           | Inr rows \<Rightarrow>
               if rows = [] then (Inl KeyError, ri')
               else
                 finish ri' direction save_dir (''hourly_'' @ str_optional reference_hour)
                   (ChoroplethMapbox (time_col reference_hour)
                      (sort_key (\<lambda>(r, d, s). hs_hour_of_day r)
                         (join_segments (ri_segments ri') rows)))))"

text \<open>
  \<^verbatim>\<open>plot_hourly_distributions\<close>: box plots of the distribution rows, with
  \<^verbatim>\<open>pattern_names = sorted(hourly_segment_times["pattern_name"].unique())\<close> as the order
  of the facets; file suffix \<^verbatim>\<open>distr_hourly\<close>.
\<close>

definition plot_hourly_distributions ::
  "world \<Rightarrow> route_info \<Rightarrow> int \<Rightarrow> real \<Rightarrow> string option \<Rightarrow> plot_result" where
  "plot_hourly_distributions w ri direction clip_threshold save_dir =
     (case points w ri direction of
        Inl e \<Rightarrow> (Inl e, ri)
      | Inr (pts, ri') \<Rightarrow>
          (case hourly_distributions w clip_threshold pts of
             Inl e \<Rightarrow> (Inl e, ri')
           | Inr rows \<Rightarrow>
               finish ri' direction save_dir ''distr_hourly''
                 (Box rows
                    (sort (remdups (map (\<lambda>d. c_pattern_name (dr_crossing d)) rows))))))"


text \<open>
  Crossings of segment 100-101, each with its hour of day and its travel time: 60 s and
  30 s at 8 o'clock, one of 0 s at 8 o'clock, and 40 s at 9 o'clock.
\<close>

definition ex_crossing :: "string \<Rightarrow> string \<Rightarrow> linestring \<Rightarrow> int \<Rightarrow> int \<Rightarrow> segment_time" where
  "ex_crossing sid tid g h d =
     \<lparr>st_segment_id = sid, st_trip_id = tid, st_start_time = 1725893400, st_geometry = g,
      enter_time = 1725894000, exit_time = 1725894000 + d, travel_time = real_of_int d,
      st_hour_of_day = h\<rparr>"

definition ex_crossings :: "segment_time list" where
  "ex_crossings =
     [ex_crossing ''100-101'' ''T1'' [(0, 0), (100, 0)] 8 60,
      ex_crossing ''100-101'' ''T2'' [(0, 0), (100, 0)] 8 30,
      ex_crossing ''100-101'' ''T3'' [(0, 0), (100, 0)] 8 0,
      ex_crossing ''100-101'' ''T4'' [(0, 0), (100, 0)] 9 40]"

text \<open>The same crossings and one crossing of another segment, of 50 s at 9 o'clock.\<close>

definition ex_two_segments :: "segment_time list" where
  "ex_two_segments =
     ex_crossings @ [ex_crossing ''101-102'' ''T5'' [(100, 0), (100, 100)] 9 50]"

text \<open>
  Crossings of segment 100-101 on two shapes that draw it differently. On the first
  geometry: 60 s at 8 o'clock and 50 s at 9 o'clock. On the second geometry: 20 s and 40 s
  at 8 o'clock.
\<close>

definition ex_two_geometries :: "segment_time list" where
  "ex_two_geometries =
     [ex_crossing ''100-101'' ''T1'' [(0, 0), (100, 0)] 8 60,
      ex_crossing ''100-101'' ''T2'' [(0, 0), (50, 5), (100, 0)] 8 20,
      ex_crossing ''100-101'' ''T3'' [(0, 0), (50, 5), (100, 0)] 8 40,
      ex_crossing ''100-101'' ''T4'' [(0, 0), (100, 0)] 9 50]"

section \<open>Properties of the strict mode aggregate\<close>

lemma fold_max_ge: "(a::nat) \<le> fold max xs a"
  by (induction xs arbitrary: a) (auto intro: order_trans [OF max.cobounded2])

lemma fold_max_upper: "x \<in> set xs \<Longrightarrow> (x::nat) \<le> fold max xs a"
proof (induction xs arbitrary: a)
  case Nil
  then show ?case by simp
next
  case (Cons y ys)
  show ?case
  proof (cases "x = y")
    case True
    have "max y a \<le> fold max ys (max y a)" by (rule fold_max_ge)
    with True show ?thesis by simp
  next
    case False
    with Cons show ?thesis by simp
  qed
qed

lemma fold_max_attained: "fold max xs (a::nat) = a \<or> fold max xs a \<in> set xs"
proof (induction xs arbitrary: a)
  case Nil
  then show ?case by simp
next
  case (Cons y ys)
  from Cons [of "max y a"] show ?case
    by (auto simp: max_def split: if_splits)
qed

lemma max_count_upper: "v \<in> set vs \<Longrightarrow> count_list vs v \<le> max_count vs"
  unfolding max_count_def by (rule fold_max_upper) simp

lemma max_count_attained:
  assumes "vs \<noteq> []"
  shows "\<exists>v \<in> set vs. count_list vs v = max_count vs"
proof -
  from fold_max_attained [of "map (count_list vs) vs" 0]
  consider "max_count vs = 0" | "max_count vs \<in> set (map (count_list vs) vs)"
    by (auto simp: max_count_def)
  then show ?thesis
  proof cases
    case 1
    from assms obtain v where v: "v \<in> set vs" by (cases vs) auto
    then have "0 < count_list vs v" using count_list_0_iff [of vs v] by auto
    moreover from v have "count_list vs v \<le> max_count vs" by (rule max_count_upper)
    ultimately show ?thesis using 1 by simp
  next
    case 2
    then show ?thesis by auto
  qed
qed

lemma most_frequent_iff:
  "most_frequent vs v \<longleftrightarrow> v \<in> set vs \<and> count_list vs v = max_count vs"
proof
  assume mf: "most_frequent vs v"
  then have v: "v \<in> set vs" by (simp add: most_frequent_def)
  then have "vs \<noteq> []" by auto
  then obtain w where w: "w \<in> set vs" "count_list vs w = max_count vs"
    using max_count_attained by blast
  with mf have "max_count vs \<le> count_list vs v" by (auto simp: most_frequent_def)
  with max_count_upper [OF v] v show "v \<in> set vs \<and> count_list vs v = max_count vs" by simp
next
  assume "v \<in> set vs \<and> count_list vs v = max_count vs"
  then show "most_frequent vs v"
    by (auto simp: most_frequent_def max_count_upper)
qed

lemma set_mode: "set (mode s) = {v. most_frequent (dropna s) v}"
  by (auto simp: mode_def Let_def most_frequent_iff)

lemma distinct_mode: "distinct (mode s)"
  by (simp add: mode_def Let_def)

lemma length_le_1_iff:
  "distinct xs \<Longrightarrow> length xs \<le> 1 \<longleftrightarrow> (\<forall>a \<in> set xs. \<forall>b \<in> set xs. a = b)"
  by (cases xs rule: remdups_adj.cases) auto

lemma strictmode_Inr_iff:
  "strictmode s = Inr v \<longleftrightarrow>
     most_frequent (dropna s) v \<and> (\<forall>w. most_frequent (dropna s) w \<longrightarrow> w = v)"
proof -
  have d: "distinct (mode s)" by (rule distinct_mode)
  have st: "set (mode s) = {v. most_frequent (dropna s) v}" by (rule set_mode)
  show ?thesis
  proof (cases "mode s" rule: remdups_adj.cases)
    case 1
    with st show ?thesis by (auto simp: strictmode_def)
  next
    case (2 x)
    with st have "\<And>w. most_frequent (dropna s) w \<longleftrightarrow> w = x" by auto
    with 2 show ?thesis by (auto simp: strictmode_def)
  next
    case (3 x y zs)
    with d have "x \<noteq> y" by auto
    moreover from 3 st have "most_frequent (dropna s) x" "most_frequent (dropna s) y" by auto
    ultimately show ?thesis using 3 by (auto simp: strictmode_def)
  qed
qed

lemma strictmode_MultipleModes_iff:
  "strictmode s = Inl (MultipleModes d) \<longleftrightarrow>
     d = value_counts s \<and>
     (\<exists>v w. v \<noteq> w \<and> most_frequent (dropna s) v \<and> most_frequent (dropna s) w)"
proof -
  have d: "distinct (mode s)" by (rule distinct_mode)
  have st: "set (mode s) = {v. most_frequent (dropna s) v}" by (rule set_mode)
  show ?thesis
  proof (cases "mode s" rule: remdups_adj.cases)
    case 1
    with st show ?thesis by (auto simp: strictmode_def)
  next
    case (2 x)
    with st have "\<And>w. most_frequent (dropna s) w \<longleftrightarrow> w = x" by auto
    with 2 show ?thesis by (auto simp: strictmode_def)
  next
    case (3 x y zs)
    with d have "x \<noteq> y" by auto
    moreover from 3 st have "most_frequent (dropna s) x" "most_frequent (dropna s) y" by auto
    ultimately show ?thesis using 3 by (auto simp: strictmode_def)
  qed
qed

text \<open>
  Claim C4. For every series, \<open>strictmode\<close> returns \<open>v\<close> exactly when \<open>v\<close> is the one
  most frequent value; it raises the error that carries the value distribution exactly
  when two different values are both most frequent, and the distribution it reports is
  \<open>value_counts\<close> of the series, in which every tied value occurs. A series with at least
  one value never ends in any other error. So a tie is never resolved by picking a value.
\<close>

theorem strictmode_unique_or_raise:
  "(strictmode s = Inr v \<longleftrightarrow>
      most_frequent (dropna s) v \<and> (\<forall>w. most_frequent (dropna s) w \<longrightarrow> w = v)) \<and>
   ((\<exists>d. strictmode s = Inl (MultipleModes d)) \<longleftrightarrow>
      (\<exists>a b. a \<noteq> b \<and> most_frequent (dropna s) a \<and> most_frequent (dropna s) b)) \<and>
   (\<forall>d. strictmode s = Inl (MultipleModes d) \<longrightarrow>
      d = value_counts s \<and> (\<forall>u. most_frequent (dropna s) u \<longrightarrow> u \<in># d)) \<and>
   (dropna s \<noteq> [] \<longrightarrow> strictmode s \<noteq> Inl ItemError)"
proof (intro conjI)
  show "strictmode s = Inr v \<longleftrightarrow>
      most_frequent (dropna s) v \<and> (\<forall>w. most_frequent (dropna s) w \<longrightarrow> w = v)"
    by (rule strictmode_Inr_iff)
  show "(\<exists>d. strictmode s = Inl (MultipleModes d)) \<longleftrightarrow>
      (\<exists>a b. a \<noteq> b \<and> most_frequent (dropna s) a \<and> most_frequent (dropna s) b)"
    by (simp add: strictmode_MultipleModes_iff)
  show "\<forall>d. strictmode s = Inl (MultipleModes d) \<longrightarrow>
      d = value_counts s \<and> (\<forall>u. most_frequent (dropna s) u \<longrightarrow> u \<in># d)"
    by (simp add: strictmode_MultipleModes_iff value_counts_def most_frequent_def)
  show "dropna s \<noteq> [] \<longrightarrow> strictmode s \<noteq> Inl ItemError"
  proof
    assume ne: "dropna s \<noteq> []"
    then obtain v where "most_frequent (dropna s) v"
      using max_count_attained [OF ne] by (auto simp: most_frequent_iff)
    then have "v \<in> set (mode s)" by (simp add: set_mode)
    then show "strictmode s \<noteq> Inl ItemError"
      by (cases "mode s" rule: remdups_adj.cases) (auto simp: strictmode_def)
  qed
qed

theorem strictmode_unique_or_raise_witness:
  "strictmode [Some 3, Some 3, Some 3, Some 5] = Inr 3 \<and>
   strictmode [Some 3, Some 3, Some 5, Some 5] = Inl (MultipleModes (mset [3, 3, 5, 5])) \<and>
   3 \<in># mset [3, 3, 5, 5 :: int] \<and> 5 \<in># mset [3, 3, 5, 5 :: int]"
proof -
  have mf1: "\<And>w. most_frequent [3, 3, 3, 5] w \<longleftrightarrow> w = 3"
    by (auto simp: most_frequent_def)
  have mf2: "\<And>w. most_frequent [3, 3, 5, 5] w \<longleftrightarrow> w = 3 \<or> w = 5"
    by (auto simp: most_frequent_def)
  have a: "strictmode [Some 3, Some 3, Some 3, Some 5] = Inr 3"
    using strictmode_unique_or_raise [of "[Some 3, Some 3, Some 3, Some 5]" 3]
    by (simp add: dropna_def mf1)
  have "(3::int) \<noteq> 5 \<and> most_frequent [3, 3, 5, 5] 3 \<and> most_frequent [3, 3, 5, 5] 5"
    by (simp add: mf2)
  then have tie: "\<exists>a b. a \<noteq> b \<and> most_frequent [3, 3, 5, 5] a \<and> most_frequent [3, 3, 5, 5] b"
    by blast
  have dn: "dropna [Some 3, Some 3, Some 5, Some 5 :: int option] = [3, 3, 5, 5]"
    by (simp add: dropna_def)
  have "\<exists>d. strictmode [Some 3, Some 3, Some 5, Some 5] = Inl (MultipleModes d)"
    using strictmode_unique_or_raise [of "[Some 3, Some 3, Some 5, Some 5]" 0] tie
    unfolding dn by blast
  then obtain d where d: "strictmode [Some 3, Some 3, Some 5, Some 5] = Inl (MultipleModes d)"
    by blast
  then have "d = value_counts [Some 3, Some 3, Some 5, Some 5]"
    using strictmode_unique_or_raise [of "[Some 3, Some 3, Some 5, Some 5]" 0] by blast
  with d have b: "strictmode [Some 3, Some 3, Some 5, Some 5] = Inl (MultipleModes (mset [3, 3, 5, 5]))"
    by (simp add: value_counts_def dropna_def)
  from a b show ?thesis by simp
qed

section \<open>Evaluation on concrete inputs\<close>

text \<open>The equations that unfold the example data and the spatial join.\<close>

lemmas ex_defs = ex_world_def ex_route_def ex_corner_def ex_far_def ex_row_def ex_segment_def ex_pattern_def l1_def init_def
lemmas points_defs = points_def joined_def route_segments_def patterned_positions_def vehicle_positions_def
  position_frame_def datetime_in_bounds_def
  read_sql_query_def to_crs_positions_def to_crs_segments_def to_crs_points_def join_patterns_def
  with_shape_def shape_groups_def get_group_def sjoin_nearest_def nearest_def dt_hour_def


section \<open>Properties of the spatial join\<close>

lemma sum_list_if_distinct:
  "distinct ks \<Longrightarrow> sum_list (map (\<lambda>k. if k = c then (n::nat) else 0) ks) = (if c \<in> set ks then n else 0)"
  by (induction ks) auto

lemma count_list_distinct: "distinct ks \<Longrightarrow> c \<in> set ks \<Longrightarrow> count_list ks c = 1"
  by (induction ks) auto

lemma mset_group_concat:
  assumes "distinct ks" and "key ` set xs \<subseteq> set ks"
  shows "mset (concat (map (\<lambda>k. filter (\<lambda>x. key x = k) xs) ks)) = mset xs"
  using assms
proof (induction xs)
  case Nil
  then show ?case by (induction ks) auto
next
  case (Cons a xs)
  have split: "\<And>ks. mset (concat (map (\<lambda>k. filter (\<lambda>x. key x = k) (a # xs)) ks)) =
      mset (concat (map (\<lambda>k. filter (\<lambda>x. key x = k) xs) ks)) + replicate_mset (count_list ks (key a)) a"
    subgoal for ks by (induction ks) auto
    done
  from Cons.prems have "count_list ks (key a) = 1"
    by (simp add: count_list_distinct)
  with Cons split [of ks] show ?case by simp
qed

lemma mset_shape_groups:
  "mset (concat (map snd (shape_groups xs))) = mset xs"
proof -
  have "mset (concat (map (\<lambda>k. filter (\<lambda>x. (\<lambda>(v, t). shape_id t) x = k) xs)
           (remdups (map (\<lambda>(v, t). shape_id t) xs)))) = mset xs"
    by (rule mset_group_concat) auto
  moreover have "map snd (shape_groups xs) =
      map (\<lambda>k. filter (\<lambda>x. (\<lambda>(v, t). shape_id t) x = k) xs) (remdups (map (\<lambda>(v, t). shape_id t) xs))"
    by (simp add: shape_groups_def comp_def case_prod_unfold)
  ultimately show ?thesis by simp
qed

lemma apply_groups_Inr:
  "apply_groups w segs gs = Inr rs \<Longrightarrow>
     rs = concat (map (\<lambda>(k, x). sjoin_nearest w 12 x (filter (\<lambda>s. seg_shape_id s = k) segs)) gs) \<and>
     (\<forall>(k, x) \<in> set gs. filter (\<lambda>s. seg_shape_id s = k) segs \<noteq> [])"
proof (induction gs arbitrary: rs)
  case Nil
  then show ?case by simp
next
  case (Cons g gs)
  obtain k x where g: "g = (k, x)" by (cases g)
  from Cons.prems g obtain grp rs' where
    grp: "get_group segs k = Inr grp" and rs': "apply_groups w segs gs = Inr rs'"
    and rs: "rs = sjoin_nearest w 12 x grp @ rs'"
    by (auto split: sum.splits)
  from grp have "grp = filter (\<lambda>s. seg_shape_id s = k) segs" "grp \<noteq> []"
    by (auto simp: get_group_def split: list.splits)
  with Cons.IH [OF rs'] rs g show ?case by simp
qed

lemma apply_groups_Inl:
  "apply_groups w segs gs = Inl e \<Longrightarrow>
     e = KeyError \<and> (\<exists>(k, x) \<in> set gs. filter (\<lambda>s. seg_shape_id s = k) segs = [])"
proof (induction gs)
  case Nil
  then show ?case by simp
next
  case (Cons g gs)
  obtain k x where g: "g = (k, x)" by (cases g)
  show ?case
  proof (cases "get_group segs k")
    case (Inl e')
    then have "e' = KeyError" "filter (\<lambda>s. seg_shape_id s = k) segs = []"
      by (auto simp: get_group_def split: list.splits)
    with Inl Cons.prems g show ?thesis by simp
  next
    case (Inr grp)
    with Cons.prems g have "apply_groups w segs gs = Inl e"
      by (auto split: sum.splits)
    from Cons.IH [OF this] show ?thesis by auto
  qed
qed


lemma mset_concat_map_cong:
  "mset xs = mset ys \<Longrightarrow> mset (concat (map f xs)) = mset (concat (map f ys))"
proof -
  have "\<And>zs. mset (concat (map f zs)) = (\<Sum>z \<in># mset zs. mset (f z))"
    subgoal for zs by (induction zs) auto
    done
  then show "mset xs = mset ys \<Longrightarrow> ?thesis" by simp
qed

lemma concat_map_concat:
  "concat (map (\<lambda>g. concat (map f g)) gs) = concat (map f (concat gs))"
  by (induction gs) auto

lemma sjoin_group:
  "sjoin_nearest w 12 (filter (\<lambda>(v, t). shape_id t = k) xs)
     (filter (\<lambda>s. seg_shape_id s = k) (route_segments w ri d)) =
   concat (map (rows_of w ri d) (filter (\<lambda>(v, t). shape_id t = k) xs))"
  unfolding sjoin_nearest_def rows_of_def matches_def shape_group_def
  by (rule arg_cong [where f = concat], rule map_cong) auto

lemma joined_Inr:
  assumes "joined w ri d = Inr rs"
  shows "mset rs = mset (concat (map (rows_of w ri d) (with_shape (patterned_positions w ri d))))"
proof -
  let ?xs = "with_shape (patterned_positions w ri d)"
  from assms have "rs = concat (map (\<lambda>(k, x). sjoin_nearest w 12 x
      (filter (\<lambda>s. seg_shape_id s = k) (route_segments w ri d))) (shape_groups ?xs))"
    unfolding joined_def by (rule apply_groups_Inr [THEN conjunct1])
  also have "map (\<lambda>(k, x). sjoin_nearest w 12 x
      (filter (\<lambda>s. seg_shape_id s = k) (route_segments w ri d))) (shape_groups ?xs) =
    map (\<lambda>g. concat (map (rows_of w ri d) g)) (map snd (shape_groups ?xs))"
    by (simp add: shape_groups_def comp_def sjoin_group)
  also have "concat \<dots> = concat (map (rows_of w ri d) (concat (map snd (shape_groups ?xs))))"
    by (rule concat_map_concat)
  finally have "rs = concat (map (rows_of w ri d) (concat (map snd (shape_groups ?xs))))" .
  then show ?thesis
    using mset_concat_map_cong [OF mset_shape_groups [of ?xs]] by simp
qed


lemma joined_Inl: "joined w ri d = Inl e \<Longrightarrow> e = KeyError"
  unfolding joined_def by (rule apply_groups_Inl [THEN conjunct1])


lemma shape_groups_Nil: "shape_groups xs = [] \<longleftrightarrow> xs = []"
  by (simp add: shape_groups_def)

lemma vehicle_positions_Inr_iff:
  "(\<exists>vp. vehicle_positions w ri d = Inr vp) \<longleftrightarrow>
     (\<forall>x \<in> set (read_sql_query (db_path ri) (route ri) d).
        datetime_in_bounds (timestamp x) \<and> datetime_in_bounds (start_time x))"
  by (auto simp: vehicle_positions_def Let_def list_all_iff)

lemma points_fresh:
  assumes "ri_point_data ri d = None"
  shows "points w ri d = Inr (pts, ri') \<longleftrightarrow>
       (\<exists>vp. vehicle_positions w ri d = Inr vp) \<and>
       with_shape (patterned_positions w ri d) \<noteq> [] \<and>
       (\<exists>rs. joined w ri d = Inr rs \<and> pts = \<lparr>frame_crs = EPSG26910, frame_rows = rs\<rparr> \<and>
          ri' = ri\<lparr>ri_point_data := (ri_point_data ri)(d \<mapsto> to_crs_points w WGS84 pts)\<rparr>)"
proof (cases "vehicle_positions w ri d")
  case (Inl e)
  with assms show ?thesis by (simp add: points_def)
next
  case vp: (Inr vp)
  show ?thesis
  proof (cases "joined w ri d")
    case (Inl e)
    with assms vp show ?thesis by (simp add: points_def)
  next
    case rs: (Inr rs)
    show ?thesis
    proof (cases "with_shape (patterned_positions w ri d) = []")
      case True
      with assms vp rs show ?thesis by (simp add: points_def shape_groups_Nil)
    next
      case False
      with assms vp rs show ?thesis
        by (simp add: points_def shape_groups_Nil Let_def) blast
    qed
  qed
qed

lemma points_second_call:
  assumes "ri_point_data ri d = None" and "points w ri d = Inr (pts, ri')"
  shows "points w ri' d = Inr (to_crs_points w WGS84 pts, ri')"
proof -
  from assms have "ri' = ri\<lparr>ri_point_data := (ri_point_data ri)(d \<mapsto> to_crs_points w WGS84 pts)\<rparr>"
    using points_fresh [of ri d w pts ri'] by blast
  then have "ri_point_data ri' d = Some (to_crs_points w WGS84 pts)" by simp
  then show ?thesis by (simp add: points_def)
qed

lemma points_cached_again:
  assumes "ri_point_data ri d = Some c"
  shows "points w ri d = Inr (c, ri)"
  using assms by (simp add: points_def)

lemma length_filter_concat:
  "length (filter P (concat xss)) = sum_list (map (\<lambda>xs. length (filter P xs)) xss)"
  by (induction xss) auto

lemma sum_list_map_if_filter:
  "sum_list (map (\<lambda>x. if Q x then f x else (0::nat)) xs) = sum_list (map f (filter Q xs))"
  by (induction xs) auto

lemma length_filter_mset_eq:
  "mset xs = mset ys \<Longrightarrow> length (filter P xs) = length (filter P ys)"
proof -
  assume "mset xs = mset ys"
  then have "size (filter_mset P (mset xs)) = size (filter_mset P (mset ys))" by simp
  then show ?thesis by (simp flip: mset_filter)
qed

lemma joined_rows_count:
  assumes "joined w ri d = Inr rs"
  shows "length (filter (\<lambda>r. ix (position r) = i) rs) =
    sum_list (map (\<lambda>x. length (matches w ri d x))
      (filter (\<lambda>x. ix (fst x) = i) (with_shape (patterned_positions w ri d))))"
proof -
  let ?P = "\<lambda>r. ix (position r) = i"
  let ?xs = "with_shape (patterned_positions w ri d)"
  have one: "\<And>x. length (filter ?P (rows_of w ri d x)) =
      (if ix (fst x) = i then length (matches w ri d x) else 0)"
    by (simp add: rows_of_def filter_map comp_def)
  have "length (filter ?P rs) = length (filter ?P (concat (map (rows_of w ri d) ?xs)))"
    by (rule length_filter_mset_eq) (rule joined_Inr [OF assms])
  also have "\<dots> = sum_list (map (\<lambda>x. length (filter ?P (rows_of w ri d x))) ?xs)"
    by (simp add: length_filter_concat comp_def)
  also have "\<dots> = sum_list (map (\<lambda>x. if ix (fst x) = i then length (matches w ri d x) else 0) ?xs)"
    by (simp only: one)
  also have "\<dots> = sum_list (map (\<lambda>x. length (matches w ri d x)) (filter (\<lambda>x. ix (fst x) = i) ?xs))"
    by (rule sum_list_map_if_filter)
  finally show ?thesis .
qed

lemma length_filter_key:
  "distinct (map key ts) \<Longrightarrow> length (filter (\<lambda>t. key t = k) ts) \<le> 1"
  by (induction ts) (auto simp: filter_empty_conv image_iff)

lemma with_shape_join_patterns:
  "with_shape (join_patterns tps vs) =
     concat (map (\<lambda>v. map (\<lambda>t. (v, t))
       (filter (\<lambda>t. join_key t = (trip_id (row v), route_id (row v), direction_id (row v))) tps)) vs)"
proof (induction vs)
  case Nil
  then show ?case by (simp add: with_shape_def join_patterns_def)
next
  case (Cons v vs)
  have app: "\<And>a b. with_shape (a @ b) = with_shape a @ with_shape b"
    by (simp add: with_shape_def)
  have some: "\<And>ms. with_shape (map (\<lambda>t. (v, Some t)) ms) = map (\<lambda>t. (v, t)) ms"
    subgoal for ms by (induction ms) (auto simp: with_shape_def)
    done
  have jp: "join_patterns tps (v # vs) =
      (case filter (\<lambda>t. join_key t = (trip_id (row v), route_id (row v), direction_id (row v))) tps of
         [] \<Rightarrow> [(v, None)] | ms \<Rightarrow> map (\<lambda>t. (v, Some t)) ms) @ join_patterns tps vs"
    by (simp add: join_patterns_def join_key_def)
  have hd: "with_shape (case filter (\<lambda>t. join_key t = (trip_id (row v), route_id (row v), direction_id (row v))) tps of
         [] \<Rightarrow> [(v, None)] | ms \<Rightarrow> map (\<lambda>t. (v, Some t)) ms) =
      map (\<lambda>t. (v, t)) (filter (\<lambda>t. join_key t = (trip_id (row v), route_id (row v), direction_id (row v))) tps)"
  proof (cases "filter (\<lambda>t. join_key t = (trip_id (row v), route_id (row v), direction_id (row v))) tps")
    case Nil
    then show ?thesis by (simp add: with_shape_def)
  next
    case (Cons m ms)
    then show ?thesis using some [of "m # ms"] by simp
  qed
  have "with_shape (join_patterns tps (v # vs)) =
      map (\<lambda>t. (v, t)) (filter (\<lambda>t. join_key t = (trip_id (row v), route_id (row v), direction_id (row v))) tps) @
      with_shape (join_patterns tps vs)"
    by (simp only: jp app hd)
  then show ?case by (simp add: Cons.IH)
qed

lemma at_most_one_patterned:
  assumes "distinct (map join_key tps)" and "distinct (map ix vs)"
  shows "length (filter (\<lambda>x. ix (fst x) = i) (with_shape (join_patterns tps vs))) \<le> 1"
proof -
  let ?ms = "\<lambda>v. filter (\<lambda>t. join_key t = (trip_id (row v), route_id (row v), direction_id (row v))) tps"
  have one: "\<And>v. length (filter (\<lambda>x. ix (fst x) = i) (map (\<lambda>t. (v, t)) (?ms v))) \<le>
      (if ix v = i then 1 else 0)"
    using length_filter_key [OF assms(1)] by (simp add: filter_map comp_def)
  have "length (filter (\<lambda>x. ix (fst x) = i) (with_shape (join_patterns tps vs))) =
      sum_list (map (\<lambda>v. length (filter (\<lambda>x. ix (fst x) = i) (map (\<lambda>t. (v, t)) (?ms v)))) vs)"
    by (simp only: with_shape_join_patterns length_filter_concat map_map comp_def)
  also have "\<dots> \<le> sum_list (map (\<lambda>v. if ix v = i then 1 else 0) vs)"
    by (rule sum_list_mono) (rule one)
  also have "\<dots> = length (filter (\<lambda>v. ix v = i) vs)"
    by (induction vs) auto
  also have "\<dots> \<le> 1"
    using length_filter_key [OF assms(2)] .
  finally show ?thesis .
qed

lemma distinct_ix_positions:
  "distinct (map ix (frame_rows (to_crs_positions w c (position_frame w xs))))"
proof -
  have "map ix (frame_rows (to_crs_positions w c (position_frame w xs))) =
      map fst (enumerate 0 xs)"
    by (simp add: to_crs_positions_def position_frame_def comp_def case_prod_unfold)
  then show ?thesis by simp
qed




lemma points_rows:
  assumes "ri_point_data ri d = None" and "points w ri d = Inr (pts, ri')"
  shows "joined w ri d = Inr (frame_rows pts)"
proof -
  from points_fresh [OF assms(1), of w pts ri'] assms(2)
  obtain rs where "joined w ri d = Inr rs" and "pts = \<lparr>frame_crs = EPSG26910, frame_rows = rs\<rparr>"
    by blast
  then show ?thesis by simp
qed


section \<open>The cache of joined points\<close>

text \<open>
  Claim C1. The claim is that a second call of \<open>points\<close> for a direction returns the very
  frame that the first call returned. The code stores \<^verbatim>\<open>points.to_crs("WGS-84")\<close> in the
  cache and returns the frame it has not transformed: on the example route the first call
  returns the frame in EPSG:26910, with the positions at (1, 2), (3, 2) and (5, 2), and the
  second call returns the cached frame in WGS 84, with the positions at (0.001, 0.002),
  (0.003, 0.002) and (0.005, 0.002). The two frames differ. (By \<open>points_second_call\<close> the
  second frame is the first one transformed, for every route and every world; by
  \<open>points_cached_again\<close> every later call returns the cached frame again.)
\<close>

theorem points_twice_example:
  "(case points ex_world ex_route 0 of
      Inl e \<Rightarrow> False
    | Inr (first, ri1) \<Rightarrow>
        (case points ex_world ri1 0 of
           Inl e \<Rightarrow> False
         | Inr (second, ri2) \<Rightarrow>
             frame_crs first = EPSG26910 \<and> frame_crs second = WGS84 \<and>
             map (geometry \<circ> position) (frame_rows first) = [(1, 2), (3, 2), (5, 2)] \<and>
             map (geometry \<circ> position) (frame_rows second) =
               [(1 / 1000, 2 / 1000), (3 / 1000, 2 / 1000), (5 / 1000, 2 / 1000)] \<and>
             second \<noteq> first))"
  by (simp add: ex_defs points_defs enumerate_eq_zip)

section \<open>Rows per position report\<close>

text \<open>
  Claim C2, as amended. On a first call that succeeds, the number of rows of the result
  for the position report \<open>i\<close> is the number of segments matched to it, summed over the
  pattern rows of its trip: \<open>matches\<close> holds every segment of the shape at the nearest
  distance, when that distance is at most 12. So the report has at most one row when no
  two rows of \<^verbatim>\<open>trips_patterns\<close> have the same join key and the report has at most one
  nearest segment within 12 units.
\<close>

theorem points_rows_per_ping:
  assumes "ri_point_data ri direction = None"
    and "points w ri direction = Inr (pts, ri')"
  shows "length (rows_for_ping i pts) =
           sum_list (map (\<lambda>x. length (matches w ri direction x))
             (filter (\<lambda>x. ix (fst x) = i) (with_shape (patterned_positions w ri direction)))) \<and>
         (distinct (map join_key (trips_patterns (ri_feed ri))) \<and>
          (\<forall>x \<in> set (with_shape (patterned_positions w ri direction)).
             ix (fst x) = i \<longrightarrow> length (matches w ri direction x) \<le> 1)
          \<longrightarrow> length (rows_for_ping i pts) \<le> 1)"
proof -
  let ?xs = "filter (\<lambda>x. ix (fst x) = i) (with_shape (patterned_positions w ri direction))"
  have count: "length (rows_for_ping i pts) = sum_list (map (\<lambda>x. length (matches w ri direction x)) ?xs)"
    unfolding rows_for_ping_def by (rule joined_rows_count) (rule points_rows [OF assms])
  have "length (rows_for_ping i pts) \<le> 1"
    if d: "distinct (map join_key (trips_patterns (ri_feed ri)))"
    and u: "\<forall>x \<in> set (with_shape (patterned_positions w ri direction)).
             ix (fst x) = i \<longrightarrow> length (matches w ri direction x) \<le> 1"
  proof -
    have "length ?xs \<le> 1"
      unfolding patterned_positions_def
      by (rule at_most_one_patterned [OF d distinct_ix_positions])
    then consider "?xs = []" | x where "?xs = [x]"
      by (cases ?xs rule: remdups_adj.cases) auto
    then show ?thesis
    proof cases
      case 1
      with count show ?thesis by simp
    next
      case (2 x)
      then have "x \<in> set ?xs" by simp
      then have "length (matches w ri direction x) \<le> 1" using u by auto
      with count 2 show ?thesis by simp
    qed
  qed
  with count show ?thesis by blast
qed

text \<open>The example route: the first report has exactly one row.\<close>

theorem points_rows_per_ping_witness:
  "ri_point_data ex_route 0 = None \<and>
   (\<exists>pts ri'. points ex_world ex_route 0 = Inr (pts, ri') \<and> length (rows_for_ping 0 pts) = 1)"
proof -
  have fresh: "ri_point_data ex_route 0 = None"
    by (simp add: ex_defs)
  have "\<exists>pts ri'. points ex_world ex_route 0 = Inr (pts, ri')"
    by (simp add: ex_defs points_defs enumerate_eq_zip)
  then obtain pts ri' where p: "points ex_world ex_route 0 = Inr (pts, ri')" by blast
  have "sum_list (map (\<lambda>x. length (matches ex_world ex_route 0 x))
      (filter (\<lambda>x. ix (fst x) = 0) (with_shape (patterned_positions ex_world ex_route 0)))) = 1"
    by (simp add: ex_defs points_defs matches_def shape_group_def enumerate_eq_zip
        flip: sum_list_map_if_filter)
  with points_rows_per_ping [OF fresh p, of 0] have "length (rows_for_ping 0 pts) = 1" by simp
  with fresh p show ?thesis by blast
qed

text \<open>
  Claim C2 as stated fails: a report nearest to the vertex that two consecutive segments
  share is equally near to both, and \<^verbatim>\<open>sjoin_nearest\<close> returns a row for each.
\<close>

theorem points_two_rows_counterexample:
  "(case points ex_world ex_corner 0 of
      Inl e \<Rightarrow> False
    | Inr (pts, ri') \<Rightarrow>
        map (segment_id \<circ> jsegment) (rows_for_ping 0 pts) = [''100-101'', ''101-102''] \<and>
        \<not> length (rows_for_ping 0 pts) \<le> 1)"
  by (simp add: ex_defs points_defs rows_for_ping_def enumerate_eq_zip)

section \<open>The distance tolerance\<close>



section \<open>Properties of the hourly statistics\<close>

lemma set_groupby:
  "set (groupby key xs) = (\<lambda>k. (k, filter (\<lambda>x. key x = k) xs)) ` key ` set xs"
  by (simp add: groupby_def)

lemma distinct_groupby: "distinct (map fst (groupby key xs))"
  by (simp add: groupby_def comp_def)

lemma hourly_row:
  assumes "r \<in> set (hourly_segment_times cs)"
  shows "\<exists>c \<in> set cs. travel_time c > 0 \<and> hourly_key c = (hs_segment_id r, hs_hour_of_day r, hs_geometry r)"
    and "stat_count r = length (bucket cs r)"
    and "stat_mean r = mean (map travel_time (bucket cs r))"
proof -
  let ?pos = "filter (\<lambda>c. travel_time c > 0) cs"
  from assms obtain c where c: "c \<in> set ?pos"
    and r: "r = describe_group (hourly_key c, filter (\<lambda>x. hourly_key x = hourly_key c) ?pos)"
    unfolding hourly_segment_times_def set_map set_groupby describe_group_def by blast
  obtain sid h g where k: "hourly_key c = (sid, h, g)" by (cases "hourly_key c")
  from r k have key: "(hs_segment_id r, hs_hour_of_day r, hs_geometry r) = hourly_key c"
    by (simp add: describe_group_def Let_def)
  have b: "bucket cs r = filter (\<lambda>x. hourly_key x = hourly_key c) ?pos"
    unfolding bucket_def key [symmetric, unfolded prod.inject] 
    by (auto simp: hourly_key_def intro: filter_cong)
  from c key show "\<exists>c \<in> set cs. travel_time c > 0 \<and> hourly_key c = (hs_segment_id r, hs_hour_of_day r, hs_geometry r)"
    by auto
  from r k show "stat_count r = length (bucket cs r)"
    unfolding b by (simp add: describe_group_def Let_def)
  from r k show "stat_mean r = mean (map travel_time (bucket cs r))"
    unfolding b by (simp add: describe_group_def Let_def)
qed


lemma stat_key_unique:
  assumes "r \<in> set (hourly_segment_times cs)" and "r' \<in> set (hourly_segment_times cs)"
    and "hs_segment_id r = hs_segment_id r'" and "hs_hour_of_day r = hs_hour_of_day r'"
    and "hs_geometry r = hs_geometry r'"
  shows "r = r'"
proof -
  let ?pos = "filter (\<lambda>c. travel_time c > 0) cs"
  from assms(1) obtain k where r: "r = describe_group (k, filter (\<lambda>x. hourly_key x = k) ?pos)"
    unfolding hourly_segment_times_def set_map set_groupby by blast
  from assms(2) obtain k' where r': "r' = describe_group (k', filter (\<lambda>x. hourly_key x = k') ?pos)"
    unfolding hourly_segment_times_def set_map set_groupby by blast
  have "k = (hs_segment_id r, hs_hour_of_day r, hs_geometry r)"
    unfolding r by (cases k) (simp add: describe_group_def Let_def)
  moreover have "k' = (hs_segment_id r', hs_hour_of_day r', hs_geometry r')"
    unfolding r' by (cases k') (simp add: describe_group_def Let_def)
  ultimately have "k = k'" using assms(3-5) by simp
  with r r' show ?thesis by simp
qed

lemma distinct_hourly_keys:
  "distinct (map (\<lambda>r. (hs_segment_id r, hs_hour_of_day r, hs_geometry r)) (hourly_segment_times cs))"
proof -
  have "map (\<lambda>r. (hs_segment_id r, hs_hour_of_day r, hs_geometry r)) (hourly_segment_times cs) =
      map fst (groupby hourly_key (filter (\<lambda>c. travel_time c > 0) cs))"
    unfolding hourly_segment_times_def map_map
    by (rule map_cong) (auto simp: describe_group_def Let_def)
  then show ?thesis by (simp add: distinct_groupby)
qed

lemma crossing_has_row:
  assumes "c \<in> set cs" and "travel_time c > 0"
  shows "\<exists>r \<in> set (hourly_segment_times cs). c \<in> set (bucket cs r)"
proof -
  let ?pos = "filter (\<lambda>c. travel_time c > 0) cs"
  let ?r = "describe_group (hourly_key c, filter (\<lambda>x. hourly_key x = hourly_key c) ?pos)"
  from assms have "c \<in> set ?pos" by simp
  then have "?r \<in> set (hourly_segment_times cs)"
    unfolding hourly_segment_times_def set_map set_groupby by blast
  moreover have "c \<in> set (bucket cs ?r)"
    using assms by (cases "hourly_key c") (auto simp: bucket_def describe_group_def Let_def hourly_key_def)
  ultimately show ?thesis by blast
qed

lemma bucket_one_geometry:
  assumes "one_geometry cs" and "r \<in> set (hourly_segment_times cs)"
  shows "bucket cs r = segment_hour cs (hs_segment_id r) (hs_hour_of_day r)"
proof -
  from hourly_row(1) [OF assms(2)] obtain c0 where c0: "c0 \<in> set cs"
    and k: "hourly_key c0 = (hs_segment_id r, hs_hour_of_day r, hs_geometry r)"
    by blast
  have "\<And>c. c \<in> set cs \<Longrightarrow> st_segment_id c = hs_segment_id r \<Longrightarrow> st_geometry c = hs_geometry r"
  proof -
    fix c
    assume "c \<in> set cs" and "st_segment_id c = hs_segment_id r"
    with c0 k assms(1) show "st_geometry c = hs_geometry r"
      unfolding one_geometry_def hourly_key_def by (metis prod.inject)
  qed
  then show ?thesis
    unfolding bucket_def segment_hour_def by (auto intro: filter_cong)
qed

lemmas agg_defs = groupby_def hourly_segment_times_def describe_group_def hourly_key_def
  ex_crossings_def ex_crossing_def Let_def

text \<open>
  Claim C5, as amended. Every row of the hourly statistics stands for a group of crossings
  that is not empty: the crossings with a positive travel time that have the row's segment
  id, hour of day and geometry. The row's count is the number of these crossings and its mean is the
  arithmetic mean of their travel times. No two rows have the same segment id, hour and
  geometry, and every crossing with a positive travel time is in the group of some row; a
  crossing whose travel time is not positive is in no group. When every segment id comes
  with one geometry, the group of a row is the set of all crossings of its segment in its
  hour with a positive travel time.
\<close>

theorem hourly_count_and_mean:
  "(\<forall>r \<in> set (hourly_segment_times cs).
      bucket cs r \<noteq> [] \<and>
      stat_count r = length (bucket cs r) \<and>
      stat_mean r = sum_list (map travel_time (bucket cs r)) / real (length (bucket cs r))) \<and>
   distinct (map (\<lambda>r. (hs_segment_id r, hs_hour_of_day r, hs_geometry r)) (hourly_segment_times cs)) \<and>
   (\<forall>c \<in> set cs. travel_time c > 0 \<longrightarrow> (\<exists>r \<in> set (hourly_segment_times cs). c \<in> set (bucket cs r))) \<and>
   (one_geometry cs \<longrightarrow>
      (\<forall>r \<in> set (hourly_segment_times cs).
         bucket cs r = segment_hour cs (hs_segment_id r) (hs_hour_of_day r)))"
proof (intro conjI ballI impI)
  fix r
  assume r: "r \<in> set (hourly_segment_times cs)"
  from hourly_row(1) [OF r] show "bucket cs r \<noteq> []"
    by (auto simp: bucket_def filter_empty_conv hourly_key_def)
  show "stat_count r = length (bucket cs r)" by (rule hourly_row(2) [OF r])
  show "stat_mean r = sum_list (map travel_time (bucket cs r)) / real (length (bucket cs r))"
    using hourly_row(3) [OF r] by (simp add: mean_def)
next
  show "distinct (map (\<lambda>r. (hs_segment_id r, hs_hour_of_day r, hs_geometry r)) (hourly_segment_times cs))"
    by (rule distinct_hourly_keys)
next
  fix c
  assume "c \<in> set cs" and "travel_time c > 0"
  then show "\<exists>r \<in> set (hourly_segment_times cs). c \<in> set (bucket cs r)"
    by (rule crossing_has_row)
next
  fix r
  assume "one_geometry cs" and "r \<in> set (hourly_segment_times cs)"
  then show "bucket cs r = segment_hour cs (hs_segment_id r) (hs_hour_of_day r)"
    by (rule bucket_one_geometry)
qed

text \<open>
  Four crossings of one segment: 60 s and 30 s at 8 o'clock, 0 s at 8 o'clock, 40 s at
  9 o'clock. The row of 8 o'clock counts 2 crossings with mean 45, the row of 9 o'clock
  counts 1 with mean 40.
\<close>

theorem hourly_count_and_mean_witness:
  "one_geometry ex_crossings \<and>
   map (\<lambda>r. (hs_hour_of_day r, stat_count r, stat_mean r)) (hourly_segment_times ex_crossings) =
     [(8, 2, 45), (9, 1, 40)]"
proof -
  have og: "one_geometry ex_crossings"
    by (simp add: one_geometry_def ex_crossings_def ex_crossing_def)
  have hours: "map hs_hour_of_day (hourly_segment_times ex_crossings) = [8, 9]"
    by (simp add: agg_defs)
  then obtain r8 r9 where rows: "hourly_segment_times ex_crossings = [r8, r9]"
    by (auto simp: map_eq_Cons_conv)
  with hours have h: "hs_hour_of_day r8 = 8" "hs_hour_of_day r9 = 9" by simp_all
  have "map hs_segment_id (hourly_segment_times ex_crossings) = [''100-101'', ''100-101'']"
    by (simp add: agg_defs)
  with rows have sid: "hs_segment_id r8 = ''100-101''" "hs_segment_id r9 = ''100-101''"
    by simp_all
  from rows have mem: "r8 \<in> set (hourly_segment_times ex_crossings)"
    "r9 \<in> set (hourly_segment_times ex_crossings)" by simp_all
  from hourly_count_and_mean [of ex_crossings] og mem
  have b8: "bucket ex_crossings r8 = segment_hour ex_crossings (hs_segment_id r8) (hs_hour_of_day r8)"
    and b9: "bucket ex_crossings r9 = segment_hour ex_crossings (hs_segment_id r9) (hs_hour_of_day r9)"
    and s8: "stat_count r8 = length (bucket ex_crossings r8)"
      "stat_mean r8 = sum_list (map travel_time (bucket ex_crossings r8)) / real (length (bucket ex_crossings r8))"
    and s9: "stat_count r9 = length (bucket ex_crossings r9)"
      "stat_mean r9 = sum_list (map travel_time (bucket ex_crossings r9)) / real (length (bucket ex_crossings r9))"
    by blast+
  have "stat_count r8 = 2" "stat_mean r8 = 45" "stat_count r9 = 1" "stat_mean r9 = 40"
    unfolding s8 s9 b8 b9 h sid
    by (simp_all add: segment_hour_def ex_crossings_def ex_crossing_def)
  with og rows h show ?thesis by simp
qed

text \<open>
  Claim C5 as stated fails: the code groups by segment id, hour of day and geometry, so a
  segment id that comes with two geometries has two rows in one hour. Segment 100-101 has
  three crossings with a positive travel time at 8 o'clock, of 60 s, 20 s and 40 s, whose
  mean is 40; its two rows of 8 o'clock have the counts 1 and 2 and the means 60 and 30.
\<close>

theorem hourly_bucket_counterexample:
  "map (\<lambda>r. (hs_segment_id r, hs_hour_of_day r, stat_count r, stat_mean r))
     (hourly_segment_times ex_two_geometries) =
     [(''100-101'', 8, 1, 60), (''100-101'', 8, 2, 30), (''100-101'', 9, 1, 50)] \<and>
   length (segment_hour ex_two_geometries ''100-101'' 8) = 3 \<and>
   sum_list (map travel_time (segment_hour ex_two_geometries ''100-101'' 8)) /
     real (length (segment_hour ex_two_geometries ''100-101'' 8)) = 40 \<and>
   \<not> list_all (\<lambda>r. stat_count r =
          length (segment_hour ex_two_geometries (hs_segment_id r) (hs_hour_of_day r)))
        (hourly_segment_times ex_two_geometries)"
  by (simp add: groupby_def hourly_segment_times_def describe_group_def hourly_key_def
      ex_two_geometries_def ex_crossing_def Let_def segment_hour_def mean_def)

section \<open>Properties of the reference hour\<close>

lemma map_zip_same: "map g (zip xs (map f xs)) = map (\<lambda>x. g (x, f x)) xs"
  by (induction xs) auto

lemma with_reference_Some:
  "with_reference rows (Some h) =
     (if h \<in> hs_hour_of_day ` set rows
      then Inr (map (\<lambda>r. (r, Some (stat_mean r -
             (case pivot_table rows h (hs_segment_id r) of None \<Rightarrow> 0 | Some m \<Rightarrow> m)))) rows)
      else Inl KeyError)"
  by (simp add: with_reference_def ref_times_def map_zip_same)

lemma distinct_hourly_rows: "distinct (hourly_segment_times cs)"
  using distinct_hourly_keys [of cs] by (simp add: distinct_map)

lemma pivot_table_none:
  assumes "\<forall>r0 \<in> set rows. hs_hour_of_day r0 = h \<longrightarrow> hs_segment_id r0 \<noteq> sid"
  shows "pivot_table rows h sid = None"
proof -
  have "filter (\<lambda>r. hs_hour_of_day r = h \<and> hs_segment_id r = sid) rows = []"
    using assms by (auto simp: filter_empty_conv)
  then show ?thesis by (simp add: pivot_table_def)
qed

lemma filter_single:
  "distinct xs \<Longrightarrow> x \<in> set xs \<Longrightarrow> P x \<Longrightarrow> (\<forall>y \<in> set xs. P y \<longrightarrow> y = x) \<Longrightarrow> filter P xs = [x]"
proof (induction xs)
  case Nil
  then show ?case by simp
next
  case (Cons a xs)
  show ?case
  proof (cases "a = x")
    case True
    from Cons.prems(1) True have "x \<notin> set xs" by simp
    with Cons.prems(4) have "\<forall>y \<in> set xs. \<not> P y" by auto
    then have "filter P xs = []" by (simp add: filter_empty_conv)
    with True Cons.prems(3) show ?thesis by simp
  next
    case False
    with Cons.prems(4) have na: "\<not> P a" by auto
    from False Cons.prems(2) have "x \<in> set xs" by simp
    moreover from Cons.prems(1) have "distinct xs" by simp
    moreover from Cons.prems(4) have "\<forall>y \<in> set xs. P y \<longrightarrow> y = x" by simp
    ultimately have "filter P xs = [x]" using Cons.prems(3) by (intro Cons.IH)
    with na show ?thesis by simp
  qed
qed

lemma pivot_table_single:
  assumes "distinct rows" and "r0 \<in> set rows"
    and "hs_hour_of_day r0 = h" and "hs_segment_id r0 = sid"
    and "\<forall>r1 \<in> set rows. hs_hour_of_day r1 = h \<and> hs_segment_id r1 = sid \<longrightarrow> r1 = r0"
  shows "pivot_table rows h sid = Some (stat_mean r0)"
proof -
  have "filter (\<lambda>r. hs_hour_of_day r = h \<and> hs_segment_id r = sid) rows = [r0]"
  proof (rule filter_single [OF assms(1,2)])
    from assms(3,4) show "hs_hour_of_day r0 = h \<and> hs_segment_id r0 = sid" by simp
    from assms(5) show "\<forall>y \<in> set rows. hs_hour_of_day y = h \<and> hs_segment_id y = sid \<longrightarrow> y = r0" .
  qed
  then show ?thesis by (simp add: pivot_table_def mean_def)
qed

lemma one_geometry_rows:
  assumes "one_geometry cs"
    and "r0 \<in> set (hourly_segment_times cs)" and "r1 \<in> set (hourly_segment_times cs)"
    and "hs_hour_of_day r0 = hs_hour_of_day r1" and "hs_segment_id r0 = hs_segment_id r1"
  shows "r0 = r1"
proof -
  from hourly_row(1) [OF assms(2)] obtain c0 where c0: "c0 \<in> set cs"
    "hourly_key c0 = (hs_segment_id r0, hs_hour_of_day r0, hs_geometry r0)" by blast
  from hourly_row(1) [OF assms(3)] obtain c1 where c1: "c1 \<in> set cs"
    "hourly_key c1 = (hs_segment_id r1, hs_hour_of_day r1, hs_geometry r1)" by blast
  from c0 c1 assms(5) have "st_segment_id c0 = st_segment_id c1"
    by (simp add: hourly_key_def)
  with assms(1) c0 c1 have "st_geometry c0 = st_geometry c1"
    unfolding one_geometry_def by blast
  with c0 c1 have "hs_geometry r0 = hs_geometry r1"
    by (simp add: hourly_key_def)
  with assms show ?thesis by (intro stat_key_unique [of r0 cs r1]) auto
qed

lemma rows_with_column:
  "map fst out = rows \<Longrightarrow> (\<forall>(r, d) \<in> set out. d = f r) \<Longrightarrow> out = map (\<lambda>r. (r, f r)) rows"
proof (induction out arbitrary: rows)
  case Nil
  then show ?case by simp
next
  case (Cons x out)
  obtain r d where x: "x = (r, d)" by (cases x)
  from Cons.prems(1) x obtain rows' where rows: "rows = r # rows'" and "map fst out = rows'"
    by auto
  moreover from Cons.prems(2) have "\<forall>(r, d) \<in> set out. d = f r" by simp
  ultimately have "out = map (\<lambda>r. (r, f r)) rows'" by (intro Cons.IH)
  moreover from Cons.prems(2) x have "d = f r" by simp
  ultimately show ?case using x rows by simp
qed

lemma hour_has_row:
  "h \<in> hs_hour_of_day ` set (hourly_segment_times cs) \<longleftrightarrow>
     (\<exists>c \<in> set cs. travel_time c > 0 \<and> st_hour_of_day c = h)"
proof
  assume "h \<in> hs_hour_of_day ` set (hourly_segment_times cs)"
  then obtain r where r: "r \<in> set (hourly_segment_times cs)" and h: "hs_hour_of_day r = h"
    by (auto simp: image_iff)
  from hourly_row(1) [OF r] obtain c where "c \<in> set cs" "travel_time c > 0"
    "hourly_key c = (hs_segment_id r, hs_hour_of_day r, hs_geometry r)" by blast
  with h have "c \<in> set cs \<and> travel_time c > 0 \<and> st_hour_of_day c = h"
    by (simp add: hourly_key_def)
  then show "\<exists>c \<in> set cs. travel_time c > 0 \<and> st_hour_of_day c = h" by blast
next
  assume "\<exists>c \<in> set cs. travel_time c > 0 \<and> st_hour_of_day c = h"
  then obtain c where c: "c \<in> set cs" "travel_time c > 0" and h: "st_hour_of_day c = h" by blast
  from crossing_has_row [OF c] obtain r where r: "r \<in> set (hourly_segment_times cs)"
    and "c \<in> set (bucket cs r)" by blast
  then have "st_hour_of_day c = hs_hour_of_day r" by (simp add: bucket_def)
  with h r show "h \<in> hs_hour_of_day ` set (hourly_segment_times cs)" by (auto simp: image_iff)
qed

lemma with_reference_KeyError:
  "with_reference rows (Some h) = Inl e \<longleftrightarrow> e = KeyError \<and> h \<notin> hs_hour_of_day ` set rows"
proof (cases "h \<in> hs_hour_of_day ` set rows")
  case True
  then have "with_reference rows (Some h) = Inr (map (\<lambda>r. (r, Some (stat_mean r -
      (case pivot_table rows h (hs_segment_id r) of None \<Rightarrow> 0 | Some m \<Rightarrow> m)))) rows)"
    by (simp only: with_reference_Some if_True)
  with True show ?thesis by simp
next
  case False
  then have "with_reference rows (Some h) = Inl KeyError"
    by (simp only: with_reference_Some if_False)
  with False show ?thesis by auto
qed

lemma ex_route_points:
  assumes "points ex_world ex_route 0 = Inr (pts, ri')"
  shows "pts = \<lparr>frame_crs = EPSG26910, frame_rows = projr (joined ex_world ex_route 0)\<rparr>"
proof -
  have "ri_point_data ex_route 0 = None" by (simp add: ex_defs)
  from points_fresh [OF this, of ex_world pts ri'] assms
  obtain rs where "joined ex_world ex_route 0 = Inr rs"
    and "pts = \<lparr>frame_crs = EPSG26910, frame_rows = rs\<rparr>" by blast
  then show ?thesis by simp
qed

lemma ex_route_segment_times:
  assumes "points ex_world ex_route 0 = Inr (pts, ri')"
  shows "map (\<lambda>c. (travel_time c, st_hour_of_day c)) (segment_times ex_world pts) = [(60, 8)]"
  unfolding ex_route_points [OF assms]
  by (simp add: ex_defs points_defs enumerate_eq_zip segment_times_def groupby_def
      crossing_key_def median_def Let_def)

text \<open>
  Claim C6, as amended. When a reference hour \<open>h\<close> is given and the computation succeeds, the result
  holds every row of the hourly statistics once, in order, with its differential. The
  differential of a row is its mean minus the reference value of its segment id, which is
  the cell of the pivot table at \<open>h\<close>, or zero when that cell is missing. So: when \<open>r0\<close> is
  the one row of the segment at the reference hour, the differential is the row's mean
  minus the mean of \<open>r0\<close>; and when the segment has no row at the reference hour, the
  differential is the row's mean. A segment has at most one row in an hour whenever every
  segment id comes with one geometry.
\<close>

theorem reference_differential:
  assumes "with_reference (hourly_segment_times cs) (Some h) = Inr out"
  shows "map fst out = hourly_segment_times cs \<and>
    (\<forall>(r, d) \<in> set out.
       d = Some (stat_mean r -
             (case pivot_table (hourly_segment_times cs) h (hs_segment_id r) of
                None \<Rightarrow> 0 | Some m \<Rightarrow> m)) \<and>
       (\<forall>r0 \<in> set (hourly_segment_times cs).
          hs_hour_of_day r0 = h \<and> hs_segment_id r0 = hs_segment_id r \<and>
          (\<forall>r1 \<in> set (hourly_segment_times cs).
             hs_hour_of_day r1 = h \<and> hs_segment_id r1 = hs_segment_id r \<longrightarrow> r1 = r0)
          \<longrightarrow> d = Some (stat_mean r - stat_mean r0)) \<and>
       ((\<forall>r0 \<in> set (hourly_segment_times cs).
           hs_hour_of_day r0 = h \<longrightarrow> hs_segment_id r0 \<noteq> hs_segment_id r)
          \<longrightarrow> d = Some (stat_mean r))) \<and>
    (one_geometry cs \<longrightarrow>
       (\<forall>r0 \<in> set (hourly_segment_times cs). \<forall>r1 \<in> set (hourly_segment_times cs).
          hs_hour_of_day r0 = hs_hour_of_day r1 \<and> hs_segment_id r0 = hs_segment_id r1 \<longrightarrow> r0 = r1))"
proof -
  let ?rows = "hourly_segment_times cs"
  let ?ref = "\<lambda>r. case pivot_table ?rows h (hs_segment_id r) of None \<Rightarrow> 0 | Some m \<Rightarrow> m"
  have out: "out = map (\<lambda>r. (r, Some (stat_mean r - ?ref r))) ?rows"
  proof (cases "h \<in> hs_hour_of_day ` set ?rows")
    case True
    then have "with_reference ?rows (Some h) = Inr (map (\<lambda>r. (r, Some (stat_mean r - ?ref r))) ?rows)"
      by (simp only: with_reference_Some if_True)
    with assms show ?thesis by (simp only: sum.inject)
  next
    case False
    then have "with_reference ?rows (Some h) = Inl KeyError"
      by (simp only: with_reference_Some if_False)
    with assms show ?thesis by (simp only: sum.distinct)
  qed
  have fst: "map fst out = ?rows"
    unfolding out by (simp add: comp_def)
  have rows: "\<forall>(r, d) \<in> set out.
       d = Some (stat_mean r - ?ref r) \<and>
       (\<forall>r0 \<in> set ?rows.
          hs_hour_of_day r0 = h \<and> hs_segment_id r0 = hs_segment_id r \<and>
          (\<forall>r1 \<in> set ?rows.
             hs_hour_of_day r1 = h \<and> hs_segment_id r1 = hs_segment_id r \<longrightarrow> r1 = r0)
          \<longrightarrow> d = Some (stat_mean r - stat_mean r0)) \<and>
       ((\<forall>r0 \<in> set ?rows. hs_hour_of_day r0 = h \<longrightarrow> hs_segment_id r0 \<noteq> hs_segment_id r)
          \<longrightarrow> d = Some (stat_mean r))"
  proof (rule ballI)
    fix x
    assume x: "x \<in> set out"
    obtain r d where xd: "x = (r, d)" by (cases x)
    from x have "x \<in> (\<lambda>r. (r, Some (stat_mean r - ?ref r))) ` set ?rows"
      unfolding out set_map .
    then obtain r' where "x = (r', Some (stat_mean r' - ?ref r'))" by (rule imageE)
    with xd have "(r, d) = (r', Some (stat_mean r' - ?ref r'))" by (simp only:)
    then have "r = r'" and "d = Some (stat_mean r' - ?ref r')" by (simp_all only: prod.inject)
    then have d: "d = Some (stat_mean r - ?ref r)" by (simp only:)
    have one: "d = Some (stat_mean r - stat_mean r0)"
      if "r0 \<in> set ?rows"
        and "hs_hour_of_day r0 = h \<and> hs_segment_id r0 = hs_segment_id r \<and>
          (\<forall>r1 \<in> set ?rows.
             hs_hour_of_day r1 = h \<and> hs_segment_id r1 = hs_segment_id r \<longrightarrow> r1 = r0)"
      for r0
    proof -
      have "pivot_table ?rows h (hs_segment_id r) = Some (stat_mean r0)"
      proof (rule pivot_table_single [OF distinct_hourly_rows that(1)])
        from that(2) show "hs_hour_of_day r0 = h" by (rule conjunct1)
        from that(2) show "hs_segment_id r0 = hs_segment_id r" by (rule conjunct2 [THEN conjunct1])
        from that(2) show "\<forall>r1 \<in> set ?rows.
             hs_hour_of_day r1 = h \<and> hs_segment_id r1 = hs_segment_id r \<longrightarrow> r1 = r0"
          by (rule conjunct2 [THEN conjunct2])
      qed
      with d show ?thesis by (simp only: option.case)
    qed
    have none: "d = Some (stat_mean r)"
      if "\<forall>r0 \<in> set ?rows. hs_hour_of_day r0 = h \<longrightarrow> hs_segment_id r0 \<noteq> hs_segment_id r"
    proof -
      from that have "pivot_table ?rows h (hs_segment_id r) = None"
        by (rule pivot_table_none)
      with d show ?thesis by (simp only: option.case diff_zero)
    qed
    show "case x of (r, d) \<Rightarrow>
       d = Some (stat_mean r - ?ref r) \<and>
       (\<forall>r0 \<in> set ?rows.
          hs_hour_of_day r0 = h \<and> hs_segment_id r0 = hs_segment_id r \<and>
          (\<forall>r1 \<in> set ?rows.
             hs_hour_of_day r1 = h \<and> hs_segment_id r1 = hs_segment_id r \<longrightarrow> r1 = r0)
          \<longrightarrow> d = Some (stat_mean r - stat_mean r0)) \<and>
       ((\<forall>r0 \<in> set ?rows. hs_hour_of_day r0 = h \<longrightarrow> hs_segment_id r0 \<noteq> hs_segment_id r)
          \<longrightarrow> d = Some (stat_mean r))"
      unfolding xd prod.case
    proof (intro conjI ballI impI)
      show "d = Some (stat_mean r - ?ref r)" by (rule d)
    next
      fix r0
      assume "r0 \<in> set ?rows"
        and "hs_hour_of_day r0 = h \<and> hs_segment_id r0 = hs_segment_id r \<and>
          (\<forall>r1 \<in> set ?rows.
             hs_hour_of_day r1 = h \<and> hs_segment_id r1 = hs_segment_id r \<longrightarrow> r1 = r0)"
      then show "d = Some (stat_mean r - stat_mean r0)" by (rule one)
    next
      assume "\<forall>r0 \<in> set ?rows. hs_hour_of_day r0 = h \<longrightarrow> hs_segment_id r0 \<noteq> hs_segment_id r"
      then show "d = Some (stat_mean r)" by (rule none)
    qed
  qed
  have og: "one_geometry cs \<longrightarrow>
       (\<forall>r0 \<in> set ?rows. \<forall>r1 \<in> set ?rows.
          hs_hour_of_day r0 = hs_hour_of_day r1 \<and> hs_segment_id r0 = hs_segment_id r1 \<longrightarrow> r0 = r1)"
  proof (intro impI ballI)
    fix r0 r1
    assume "one_geometry cs" "r0 \<in> set ?rows" "r1 \<in> set ?rows"
      and "hs_hour_of_day r0 = hs_hour_of_day r1 \<and> hs_segment_id r0 = hs_segment_id r1"
    then show "r0 = r1" by (intro one_geometry_rows [of cs r0 r1]) simp_all
  qed
  show ?thesis by (intro conjI) (rule fst rows og)+
qed

text \<open>
  Segment 100-101 with mean 45 at 8 o'clock and 40 at 9 o'clock, segment 101-102 with
  mean 50 at 9 o'clock only, reference hour 8: the differentials are 0, -5 and 50.
\<close>

theorem reference_differential_witness:
  "one_geometry ex_two_segments \<and>
   (\<exists>out. with_reference (hourly_segment_times ex_two_segments) (Some 8) = Inr out \<and>
      map (\<lambda>(r, d). (hs_segment_id r, hs_hour_of_day r, d)) out =
        [(''100-101'', 8, Some 0), (''100-101'', 9, Some (- 5)), (''101-102'', 9, Some 50)])"
proof -
  let ?rows = "hourly_segment_times ex_two_segments"
  have og: "one_geometry ex_two_segments"
    by (simp add: one_geometry_def ex_two_segments_def ex_crossings_def ex_crossing_def)
  have "8 \<in> hs_hour_of_day ` set ?rows"
    by (simp add: agg_defs ex_two_segments_def)
  then have "\<exists>out. with_reference ?rows (Some 8) = Inr out"
    by (simp only: with_reference_Some if_True) blast
  then obtain out where o: "with_reference ?rows (Some 8) = Inr out" ..
  from reference_differential [OF o]
  have "map fst out = ?rows"
    and "\<forall>(r, d) \<in> set out.
       d = Some (stat_mean r - (case pivot_table ?rows 8 (hs_segment_id r) of None \<Rightarrow> 0 | Some m \<Rightarrow> m))"
    by (simp_all only: case_prod_unfold) blast+
  then have "out = map (\<lambda>r. (r, Some (stat_mean r -
      (case pivot_table ?rows 8 (hs_segment_id r) of None \<Rightarrow> 0 | Some m \<Rightarrow> m)))) ?rows"
    by (rule rows_with_column)
  then have "map (\<lambda>(r, d). (hs_segment_id r, hs_hour_of_day r, d)) out =
      [(''100-101'', 8, Some 0), (''100-101'', 9, Some (- 5)), (''101-102'', 9, Some 50)]"
    by (simp add: agg_defs ex_two_segments_def pivot_table_def mean_def)
  with og o show ?thesis by (intro conjI exI)
qed

text \<open>
  Claim C6 as stated fails: the pivot table has one cell for a segment id and an hour, the
  mean of the means of the rows there, and a segment id that comes with two geometries has
  two rows in one hour. With reference hour 8, the row of segment 100-101 at 8 o'clock
  with mean 60 gets the differential 15, the other row of 8 o'clock, with mean 30, gets
  -15, and the row of 9 o'clock gets 5: each is the mean minus 45. The mean of the travel
  times of the segment at the reference hour is 40, and no row has the mean 45.
\<close>

theorem reference_differential_counterexample:
  "(case with_reference (hourly_segment_times ex_two_geometries) (Some 8) of
      Inl e \<Rightarrow> False
    | Inr out \<Rightarrow>
        map (\<lambda>(r, d). (hs_segment_id r, hs_hour_of_day r, stat_mean r, d)) out =
          [(''100-101'', 8, 60, Some 15), (''100-101'', 8, 30, Some (- 15)),
           (''100-101'', 9, 50, Some 5)]) \<and>
   sum_list (map travel_time (segment_hour ex_two_geometries ''100-101'' 8)) /
     real (length (segment_hour ex_two_geometries ''100-101'' 8)) = 40"
  by (simp add: with_reference_def ref_times_def pivot_table_def groupby_def
      hourly_segment_times_def describe_group_def hourly_key_def ex_two_geometries_def
      ex_crossing_def Let_def segment_hour_def mean_def)


text \<open>
  Claim C10. With a reference hour \<open>h\<close>, the statistics raise \<^verbatim>\<open>KeyError\<close> exactly when no
  crossing with a positive travel time, of any segment, has its hour of day equal to \<open>h\<close>,
  and they raise no other exception. When some crossing does, the computation succeeds and
  a row whose segment has no row at \<open>h\<close> gets its mean as differential. \<^verbatim>\<open>plot_hourly\<close> ends
  with that \<^verbatim>\<open>KeyError\<close>, after the joined points have been cached.
\<close>

theorem reference_hour_without_data:
  "(hourly_statistics w pts (Some h) = Inl KeyError \<longleftrightarrow>
      \<not> (\<exists>c \<in> set (segment_times w pts). travel_time c > 0 \<and> st_hour_of_day c = h)) \<and>
   (\<forall>e. hourly_statistics w pts (Some h) = Inl e \<longrightarrow> e = KeyError) \<and>
   ((\<exists>c \<in> set (segment_times w pts). travel_time c > 0 \<and> st_hour_of_day c = h) \<longrightarrow>
      (\<exists>out. hourly_statistics w pts (Some h) = Inr out \<and>
         (\<forall>(r, d) \<in> set out.
            (\<forall>r0 \<in> set (map fst out). hs_hour_of_day r0 = h \<longrightarrow> hs_segment_id r0 \<noteq> hs_segment_id r)
            \<longrightarrow> d = Some (stat_mean r)))) \<and>
   (points w ri direction = Inr (pts, ri') \<and>
    \<not> (\<exists>c \<in> set (segment_times w pts). travel_time c > 0 \<and> st_hour_of_day c = h) \<longrightarrow>
      plot_hourly w ri direction (Some h) save_dir = (Inl KeyError, ri'))"
proof -
  let ?cs = "segment_times w pts"
  let ?rows = "hourly_segment_times ?cs"
  have key: "hourly_statistics w pts (Some h) = Inl KeyError \<longleftrightarrow>
      \<not> (\<exists>c \<in> set ?cs. travel_time c > 0 \<and> st_hour_of_day c = h)"
    unfolding hourly_statistics_def with_reference_KeyError hour_has_row by simp
  have only: "\<forall>e. hourly_statistics w pts (Some h) = Inl e \<longrightarrow> e = KeyError"
    unfolding hourly_statistics_def with_reference_KeyError by simp
  have fill: "(\<exists>c \<in> set ?cs. travel_time c > 0 \<and> st_hour_of_day c = h) \<longrightarrow>
      (\<exists>out. hourly_statistics w pts (Some h) = Inr out \<and>
         (\<forall>(r, d) \<in> set out.
            (\<forall>r0 \<in> set (map fst out). hs_hour_of_day r0 = h \<longrightarrow> hs_segment_id r0 \<noteq> hs_segment_id r)
            \<longrightarrow> d = Some (stat_mean r)))"
  proof
    assume "\<exists>c \<in> set ?cs. travel_time c > 0 \<and> st_hour_of_day c = h"
    then have "h \<in> hs_hour_of_day ` set ?rows" by (simp only: hour_has_row)
    then have out: "with_reference ?rows (Some h) = Inr (map (\<lambda>r. (r, Some (stat_mean r -
        (case pivot_table ?rows h (hs_segment_id r) of None \<Rightarrow> 0 | Some m \<Rightarrow> m)))) ?rows)"
      (is "_ = Inr ?out")
      by (simp only: with_reference_Some if_True)
    have fst: "map fst ?out = ?rows" by (simp add: comp_def)
    have "\<forall>(r, d) \<in> set ?out.
        (\<forall>r0 \<in> set (map fst ?out). hs_hour_of_day r0 = h \<longrightarrow> hs_segment_id r0 \<noteq> hs_segment_id r)
        \<longrightarrow> d = Some (stat_mean r)"
      unfolding fst
    proof (rule ballI)
      fix x
      assume "x \<in> set ?out"
      then obtain r where x: "x = (r, Some (stat_mean r -
          (case pivot_table ?rows h (hs_segment_id r) of None \<Rightarrow> 0 | Some m \<Rightarrow> m)))"
        unfolding set_map by (rule imageE)
      show "case x of (r, d) \<Rightarrow>
          (\<forall>r0 \<in> set ?rows. hs_hour_of_day r0 = h \<longrightarrow> hs_segment_id r0 \<noteq> hs_segment_id r)
          \<longrightarrow> d = Some (stat_mean r)"
        unfolding x prod.case
      proof
        assume "\<forall>r0 \<in> set ?rows. hs_hour_of_day r0 = h \<longrightarrow> hs_segment_id r0 \<noteq> hs_segment_id r"
        then have "pivot_table ?rows h (hs_segment_id r) = None" by (rule pivot_table_none)
        then show "Some (stat_mean r -
            (case pivot_table ?rows h (hs_segment_id r) of None \<Rightarrow> 0 | Some m \<Rightarrow> m)) =
            Some (stat_mean r)"
          by (simp only: option.case diff_zero)
      qed
    qed
    with out show "\<exists>out. hourly_statistics w pts (Some h) = Inr out \<and>
         (\<forall>(r, d) \<in> set out.
            (\<forall>r0 \<in> set (map fst out). hs_hour_of_day r0 = h \<longrightarrow> hs_segment_id r0 \<noteq> hs_segment_id r)
            \<longrightarrow> d = Some (stat_mean r))"
      unfolding hourly_statistics_def by (intro exI conjI)
  qed
  have plot: "points w ri direction = Inr (pts, ri') \<and>
    \<not> (\<exists>c \<in> set ?cs. travel_time c > 0 \<and> st_hour_of_day c = h) \<longrightarrow>
      plot_hourly w ri direction (Some h) save_dir = (Inl KeyError, ri')"
  proof
    assume a: "points w ri direction = Inr (pts, ri') \<and>
      \<not> (\<exists>c \<in> set ?cs. travel_time c > 0 \<and> st_hour_of_day c = h)"
    then have "\<not> (\<exists>c \<in> set ?cs. travel_time c > 0 \<and> st_hour_of_day c = h)" by (rule conjunct2)
    then have "hourly_statistics w pts (Some h) = Inl KeyError" by (rule key [THEN iffD2])
    with a show "plot_hourly w ri direction (Some h) save_dir = (Inl KeyError, ri')"
      by (simp add: plot_hourly_def)
  qed
  show ?thesis by (intro conjI) (rule key only fill plot)+
qed


text \<open>
  The example route has one crossing, at 8 o'clock; with reference hour 6 the statistics
  and \<^verbatim>\<open>plot_hourly\<close> raise \<^verbatim>\<open>KeyError\<close>.
\<close>

theorem reference_hour_without_data_witness:
  "\<exists>pts ri'. points ex_world ex_route 0 = Inr (pts, ri') \<and>
     map (\<lambda>c. (travel_time c, st_hour_of_day c)) (segment_times ex_world pts) = [(60, 8)] \<and>
     hourly_statistics ex_world pts (Some 6) = Inl KeyError \<and>
     plot_hourly ex_world ex_route 0 (Some 6) None = (Inl KeyError, ri')"
proof -
  have "\<exists>pts ri'. points ex_world ex_route 0 = Inr (pts, ri')"
    by (simp add: ex_defs points_defs enumerate_eq_zip)
  then obtain pts ri' where p: "points ex_world ex_route 0 = Inr (pts, ri')" by blast
  have st: "map (\<lambda>c. (travel_time c, st_hour_of_day c)) (segment_times ex_world pts) = [(60, 8)]"
    by (rule ex_route_segment_times [OF p])
  then obtain c where cs: "segment_times ex_world pts = [c]" and "st_hour_of_day c = 8"
    by (auto simp: map_eq_Cons_conv)
  then have none: "\<not> (\<exists>c \<in> set (segment_times ex_world pts). travel_time c > 0 \<and> st_hour_of_day c = 6)"
    by simp
  from reference_hour_without_data [of ex_world pts 6 ex_route 0 ri' None] none p
  have "hourly_statistics ex_world pts (Some 6) = Inl KeyError"
    and "plot_hourly ex_world ex_route 0 (Some 6) None = (Inl KeyError, ri')"
    by blast+
  with p st show ?thesis by (intro exI conjI)
qed


section \<open>The end-to-end scenario\<close>

lemma read_sql_query_member:
  "x \<in> set (read_sql_query table r d) \<Longrightarrow> route_id x = r \<and> direction_id x = d"
  by (simp add: read_sql_query_def)

lemma three_joined:
  assumes q: "read_sql_query (db_path ri) (route ri) d = [x1, x2, x3]"
    and trip: "trip_id x2 = trip_id x1" "trip_id x3 = trip_id x1"
    and tp: "filter (\<lambda>p. tp_trip_id p = trip_id x1 \<and> tp_route_id p = route ri \<and> tp_direction_id p = d)
               (trips_patterns (ri_feed ri)) = [tp]"
    and seg: "filter (\<lambda>s. seg_direction_id s = d) (ri_segments ri) = [s]"
    and shape: "seg_shape_id s = shape_id tp"
    and near: "\<forall>x \<in> set [x1, x2, x3].
        distance w (transform w WGS84 EPSG26910 (longitude x, latitude x))
          (map (transform w WGS84 EPSG26910) (seg_geometry s)) \<le> 12"
  obtains v1 v2 v3 s' where "joined w ri d =
      Inr [\<lparr>position = v1, pattern = tp, jsegment = s'\<rparr>,
           \<lparr>position = v2, pattern = tp, jsegment = s'\<rparr>,
           \<lparr>position = v3, pattern = tp, jsegment = s'\<rparr>]"
    and "row v1 = x1" and "row v2 = x2" and "row v3 = x3"
    and "s' = s\<lparr>seg_geometry := map (transform w WGS84 EPSG26910) (seg_geometry s)\<rparr>"
    and "with_shape (patterned_positions w ri d) \<noteq> []"
proof -
  have rd: "route_id x1 = route ri" "direction_id x1 = d" "route_id x2 = route ri" "direction_id x2 = d"
    "route_id x3 = route ri" "direction_id x3 = d"
    using read_sql_query_member [of _ "db_path ri" "route ri" d] unfolding q by simp_all
  let ?s = "s\<lparr>seg_geometry := map (transform w WGS84 EPSG26910) (seg_geometry s)\<rparr>"
  have rs: "route_segments w ri d = [?s]"
    by (simp add: route_segments_def to_crs_segments_def seg)
  let ?v = "\<lambda>i x. \<lparr>ix = i, row = x, hour_of_day = dt_hour w (timestamp x),
      speed_km = speed x * (36 / 10), geometry = transform w WGS84 EPSG26910 (longitude x, latitude x)\<rparr>"
  have pp: "patterned_positions w ri d = [(?v 0 x1, Some tp), (?v 1 x2, Some tp), (?v 2 x3, Some tp)]"
    by (simp add: patterned_positions_def position_frame_def to_crs_positions_def q
        enumerate_eq_zip join_patterns_def rd trip tp upt_rec)
  have ws: "with_shape (patterned_positions w ri d) = [(?v 0 x1, tp), (?v 1 x2, tp), (?v 2 x3, tp)]"
    by (simp add: pp with_shape_def)
  have sg: "shape_groups (with_shape (patterned_positions w ri d)) =
      [(shape_id tp, [(?v 0 x1, tp), (?v 1 x2, tp), (?v 2 x3, tp)])]"
    by (simp add: ws shape_groups_def)
  have gg: "get_group [?s] (shape_id tp) = Inr [?s]"
    by (simp add: get_group_def shape)
  have nr: "\<And>x. x \<in> set [x1, x2, x3] \<Longrightarrow>
      nearest w 12 (transform w WGS84 EPSG26910 (longitude x, latitude x)) [?s] = [?s]"
    using near by (auto simp: nearest_def)
  have J: "joined w ri d =
      Inr [\<lparr>position = ?v 0 x1, pattern = tp, jsegment = ?s\<rparr>,
           \<lparr>position = ?v 1 x2, pattern = tp, jsegment = ?s\<rparr>,
           \<lparr>position = ?v 2 x3, pattern = tp, jsegment = ?s\<rparr>]"
    by (simp add: joined_def sg rs gg sjoin_nearest_def nr)
  show ?thesis by (rule that [OF J]) (simp_all add: ws)
qed


lemma median_three: "median [t, t + 30, t + 60] = real_of_int (t + 30)"
  by (simp add: median_def Let_def)

lemma same_hour_mod: "((a::int) div 3600) mod 24 = (a mod 86400) div 3600"
proof -
  have "a mod (3600 * 24) = 3600 * (a div 3600 mod 24) + a mod 3600"
    by (rule zmod_zmult2_eq) simp
  then have "a mod 86400 div 3600 = (3600 * (a div 3600 mod 24) + a mod 3600) div 3600"
    by simp
  also have "\<dots> = a div 3600 mod 24"
    by simp
  finally show ?thesis by simp
qed

text \<open>
  Claim C8. A fresh \<^verbatim>\<open>RouteInfo\<close> whose query returns three position reports of one trip
  (the same trip id and start time), at instants \<open>t\<close>, \<open>t + 30\<close> and \<open>t + 60\<close> that read
  08:00:00, 08:00:30 and 08:01:00 on the local clock and are, like the start time of the
  trip, in the range of a datetime; one row of \<^verbatim>\<open>trips_patterns\<close> for the trip; one segment
  in the direction, of the trip's shape; every report within 12 units of the projected
  segment. Then \<open>points\<close> succeeds, and both aggregations hold exactly one
  crossing, which enters at \<open>t\<close>, exits at \<open>t + 60\<close>, has a travel time of 60 seconds and
  the hour of day 8.
\<close>

theorem three_pings_crossing:
  assumes fresh: "ri_point_data ri d = None"
    and q: "read_sql_query (db_path ri) (route ri) d = [x1, x2, x3]"
    and ts: "timestamp x1 = t" "timestamp x2 = t + 30" "timestamp x3 = t + 60"
    and clock: "(t + utcoffset w t) mod 86400 = 8 * 3600"
      "(t + 30 + utcoffset w (t + 30)) mod 86400 = 8 * 3600 + 30"
      "(t + 60 + utcoffset w (t + 60)) mod 86400 = 8 * 3600 + 60"
    and trip: "trip_id x2 = trip_id x1" "trip_id x3 = trip_id x1"
    and start: "start_time x2 = start_time x1" "start_time x3 = start_time x1"
    and bounds: "datetime_in_bounds t" "datetime_in_bounds (t + 60)"
      "datetime_in_bounds (start_time x1)"
    and tp: "filter (\<lambda>p. tp_trip_id p = trip_id x1 \<and> tp_route_id p = route ri \<and> tp_direction_id p = d)
               (trips_patterns (ri_feed ri)) = [tp]"
    and seg: "filter (\<lambda>s. seg_direction_id s = d) (ri_segments ri) = [s]"
    and shape: "seg_shape_id s = shape_id tp"
    and near: "\<forall>x \<in> set [x1, x2, x3].
        distance w (transform w WGS84 EPSG26910 (longitude x, latitude x))
          (map (transform w WGS84 EPSG26910) (seg_geometry s)) \<le> 12"
  shows "\<exists>pts ri'. points w ri d = Inr (pts, ri') \<and>
      map (\<lambda>c. (enter_time c, exit_time c, travel_time c, st_hour_of_day c)) (segment_times w pts) =
        [(t, t + 60, 60, 8)] \<and>
      (\<exists>cs. distribution_times w pts = Inr cs \<and>
         map (\<lambda>c. (c_enter_time c, c_exit_time c, c_travel_time c, c_hour_of_day c)) cs =
           [(t, t + 60, 60, 8)])"
proof -
  obtain v1 v2 v3 s' where j: "joined w ri d =
      Inr [\<lparr>position = v1, pattern = tp, jsegment = s'\<rparr>,
           \<lparr>position = v2, pattern = tp, jsegment = s'\<rparr>,
           \<lparr>position = v3, pattern = tp, jsegment = s'\<rparr>]"
    and rows: "row v1 = x1" "row v2 = x2" "row v3 = x3"
    and ne: "with_shape (patterned_positions w ri d) \<noteq> []"
    by (rule three_joined [OF q trip tp seg shape near])
  let ?rs = "[\<lparr>position = v1, pattern = tp, jsegment = s'\<rparr>,
           \<lparr>position = v2, pattern = tp, jsegment = s'\<rparr>,
           \<lparr>position = v3, pattern = tp, jsegment = s'\<rparr>]"
  let ?pts = "\<lparr>frame_crs = EPSG26910, frame_rows = ?rs\<rparr>"
  let ?ri = "ri\<lparr>ri_point_data := (ri_point_data ri)(d \<mapsto> to_crs_points w WGS84 ?pts)\<rparr>"
  from bounds(1,2) have "datetime_in_bounds (t + 30)"
    by (simp add: datetime_in_bounds_def)
  with bounds have vp: "\<exists>vp. vehicle_positions w ri d = Inr vp"
    unfolding vehicle_positions_Inr_iff q by (simp add: ts start)
  have p: "points w ri d = Inr (?pts, ?ri)"
    unfolding points_fresh [OF fresh] by (intro conjI exI [of _ ?rs] vp ne j refl)
  have hour: "dt_hour w (t + 30) = 8"
    unfolding dt_hour_def same_hour_mod clock by simp
  have minmax: "Min {t, t + 30, t + 60} = t" "Max {t, t + 30, t + 60} = t + 60"
    by simp_all
  have st: "map (\<lambda>c. (enter_time c, exit_time c, travel_time c, st_hour_of_day c)) (segment_times w ?pts) =
        [(t, t + 60, 60, 8)]"
    by (simp add: segment_times_def groupby_def crossing_key_def rows ts trip start Let_def
        median_three hour minmax del: Min_insert Max_insert)
  have sm: "strictmode [Some (stop_sequence s'), Some (stop_sequence s'), Some (stop_sequence s')] =
      Inr (stop_sequence s')"
    by (simp add: strictmode_def mode_def dropna_def max_count_def Let_def)
  have dt: "\<exists>cs. distribution_times w ?pts = Inr cs \<and>
         map (\<lambda>c. (c_enter_time c, c_exit_time c, c_travel_time c, c_hour_of_day c)) cs =
           [(t, t + 60, 60, 8)]"
    by (simp add: distribution_times_def groupby_def distribution_key_def agg_crossing_def rows ts
        trip start Let_def median_three hour minmax sm del: Min_insert Max_insert)
  show ?thesis
    by (rule exI [of _ ?pts], rule exI [of _ ?ri], intro conjI) (rule p st dt)+
qed


text \<open>The example route is such a scenario, on 2024-09-09.\<close>

theorem three_pings_crossing_witness:
  "\<exists>pts ri'. points ex_world ex_route 0 = Inr (pts, ri') \<and>
      map (\<lambda>c. (enter_time c, exit_time c, travel_time c, st_hour_of_day c))
        (segment_times ex_world pts) = [(1725894000, 1725894000 + 60, 60, 8)] \<and>
      (\<exists>cs. distribution_times ex_world pts = Inr cs \<and>
         map (\<lambda>c. (c_enter_time c, c_exit_time c, c_travel_time c, c_hour_of_day c)) cs =
           [(1725894000, 1725894000 + 60, 60, 8)])"
proof (rule three_pings_crossing [where
      ?x1.0 = "ex_row 1725894000 (1 / 1000) (2 / 1000)" and
      ?x2.0 = "ex_row 1725894030 (3 / 1000) (2 / 1000)" and
      ?x3.0 = "ex_row 1725894060 (5 / 1000) (2 / 1000)" and
      tp = ex_pattern and s = "ex_segment ''100-101'' 1 [(0, 0), (1 / 10, 0)]"])
  show "ri_point_data ex_route 0 = None"
    by (simp add: ex_defs)
  show "read_sql_query (db_path ex_route) (route ex_route) 0 =
      [ex_row 1725894000 (1 / 1000) (2 / 1000), ex_row 1725894030 (3 / 1000) (2 / 1000),
       ex_row 1725894060 (5 / 1000) (2 / 1000)]"
    by (simp add: ex_defs read_sql_query_def)
  show "timestamp (ex_row 1725894000 (1 / 1000) (2 / 1000)) = 1725894000"
    "timestamp (ex_row 1725894030 (3 / 1000) (2 / 1000)) = 1725894000 + 30"
    "timestamp (ex_row 1725894060 (5 / 1000) (2 / 1000)) = 1725894000 + 60"
    by (simp_all add: ex_defs)
  show "(1725894000 + utcoffset ex_world 1725894000) mod 86400 = 8 * 3600"
    "(1725894000 + 30 + utcoffset ex_world (1725894000 + 30)) mod 86400 = 8 * 3600 + 30"
    "(1725894000 + 60 + utcoffset ex_world (1725894000 + 60)) mod 86400 = 8 * 3600 + 60"
    by (simp_all add: ex_defs)
  show "trip_id (ex_row 1725894030 (3 / 1000) (2 / 1000)) = trip_id (ex_row 1725894000 (1 / 1000) (2 / 1000))"
    "trip_id (ex_row 1725894060 (5 / 1000) (2 / 1000)) = trip_id (ex_row 1725894000 (1 / 1000) (2 / 1000))"
    "start_time (ex_row 1725894030 (3 / 1000) (2 / 1000)) = start_time (ex_row 1725894000 (1 / 1000) (2 / 1000))"
    "start_time (ex_row 1725894060 (5 / 1000) (2 / 1000)) = start_time (ex_row 1725894000 (1 / 1000) (2 / 1000))"
    by (simp_all add: ex_defs)
  show "datetime_in_bounds 1725894000" "datetime_in_bounds (1725894000 + 60)"
    "datetime_in_bounds (start_time (ex_row 1725894000 (1 / 1000) (2 / 1000)))"
    by (simp_all add: datetime_in_bounds_def ex_defs)
  show "filter (\<lambda>p. tp_trip_id p = trip_id (ex_row 1725894000 (1 / 1000) (2 / 1000)) \<and>
        tp_route_id p = route ex_route \<and> tp_direction_id p = 0)
      (trips_patterns (ri_feed ex_route)) = [ex_pattern]"
    by (simp add: ex_defs)
  show "filter (\<lambda>s. seg_direction_id s = 0) (ri_segments ex_route) =
      [ex_segment ''100-101'' 1 [(0, 0), (1 / 10, 0)]]"
    by (simp add: ex_defs)
  show "seg_shape_id (ex_segment ''100-101'' 1 [(0, 0), (1 / 10, 0)]) = shape_id ex_pattern"
    by (simp add: ex_defs)
  show "\<forall>x \<in> set [ex_row 1725894000 (1 / 1000) (2 / 1000), ex_row 1725894030 (3 / 1000) (2 / 1000),
          ex_row 1725894060 (5 / 1000) (2 / 1000)].
      distance ex_world (transform ex_world WGS84 EPSG26910 (longitude x, latitude x))
        (map (transform ex_world WGS84 EPSG26910)
           (seg_geometry (ex_segment ''100-101'' 1 [(0, 0), (1 / 10, 0)]))) \<le> 12"
    by (simp add: ex_defs)
qed

section \<open>Properties of the distribution rows\<close>

lemma collect_Inr: "collect xs = Inr ys \<Longrightarrow> xs = map Inr ys"
proof (induction xs arbitrary: ys rule: collect.induct)
  case 1
  then show ?case by simp
next
  case (2 e xs)
  then show ?case by simp
next
  case (3 x xs)
  then show ?case by (auto split: sum.splits)
qed

lemma agg_crossing_key:
  "agg_crossing w (k, rs) = Inr c \<Longrightarrow> crossing_key_of c = k"
  by (cases k) (auto simp: agg_crossing_def crossing_key_of_def Let_def split: sum.splits)

lemma distribution_times_keys:
  assumes "distribution_times w pts = Inr cs"
  shows "map crossing_key_of cs = map fst (groupby distribution_key (frame_rows pts))"
proof -
  let ?gs = "groupby distribution_key (frame_rows pts)"
  from assms have m: "map (agg_crossing w) ?gs = map Inr cs"
    unfolding distribution_times_def by (rule collect_Inr)
  then have len: "length ?gs = length cs" by (metis length_map)
  show ?thesis
  proof (rule nth_equalityI)
    show "length (map crossing_key_of cs) = length (map fst ?gs)" using len by simp
  next
    fix i
    assume "i < length (map crossing_key_of cs)"
    then have i: "i < length cs" by simp
    with len have i': "i < length ?gs" by simp
    from m have "map (agg_crossing w) ?gs ! i = map Inr cs ! i" by simp
    with i i' have "agg_crossing w (?gs ! i) = Inr (cs ! i)" by simp
    then have "crossing_key_of (cs ! i) = fst (?gs ! i)"
      by (cases "?gs ! i") (auto dest: agg_crossing_key)
    with i i' show "map crossing_key_of cs ! i = map fst ?gs ! i" by simp
  qed
qed

lemma distinct_distribution_times:
  assumes "distribution_times w pts = Inr cs"
  shows "distinct cs"
proof -
  have "distinct (map crossing_key_of cs)"
    unfolding distribution_times_keys [OF assms] by (rule distinct_groupby)
  then show ?thesis by (simp add: distinct_map)
qed

lemma mset_hourly_distribution_times:
  "mset (map dr_crossing (hourly_distribution_times clip cs)) =
     mset (filter (\<lambda>c. c_travel_time c > 0 \<and> c_travel_time c < clip) cs)"
proof -
  let ?mk = "\<lambda>c. \<lparr>dr_crossing = c, segment_name = c_start_stop_name c @ '' ... '' @ c_end_stop_name c\<rparr>"
  let ?xs = "filter (\<lambda>c. c_travel_time c > 0 \<and> c_travel_time c < clip) cs"
  have "\<And>ys. map dr_crossing (map ?mk ys) = ys"
    subgoal for ys by (induction ys) simp_all
    done
  then have "map dr_crossing (map ?mk ?xs) = ?xs" .
  then have a: "mset (map dr_crossing (map ?mk ?xs)) = mset ?xs" by (simp only:)
  have b: "\<And>f ys. mset (map dr_crossing (sort_key f ys)) = mset (map dr_crossing ys)"
    by simp
  show ?thesis
    unfolding hourly_distribution_times_def b a ..
qed

lemma length_filter_eq_count: "length (filter (\<lambda>x. f x = c) xs) = count (mset (map f xs)) c"
  by (induction xs) auto

lemma strictmode_three: "strictmode [Some a, Some a, Some a] = Inr a"
  by (simp add: strictmode_def mode_def dropna_def max_count_def Let_def)

lemma ex_route_distribution_times:
  assumes "points ex_world ex_route 0 = Inr (pts, ri')"
  shows "\<exists>c. distribution_times ex_world pts = Inr [c] \<and> c_travel_time c = 60 \<and>
    c_start_stop_name c = ''Alpha'' \<and> c_end_stop_name c = ''Beta''"
proof -
  have "\<exists>cs. distribution_times ex_world pts = Inr cs \<and>
      map (\<lambda>c. (c_travel_time c, c_start_stop_name c, c_end_stop_name c)) cs = [(60, ''Alpha'', ''Beta'')]"
    unfolding ex_route_points [OF assms]
    by (simp add: ex_defs points_defs enumerate_eq_zip distribution_times_def groupby_def
        distribution_key_def agg_crossing_def median_def Let_def strictmode_three)
  then obtain cs where cs: "distribution_times ex_world pts = Inr cs"
    and m: "map (\<lambda>c. (c_travel_time c, c_start_stop_name c, c_end_stop_name c)) cs = [(60, ''Alpha'', ''Beta'')]"
    by (elim exE conjE)
  from m have "\<exists>c cs'. cs = c # cs' \<and>
      (c_travel_time c, c_start_stop_name c, c_end_stop_name c) = (60, ''Alpha'', ''Beta'') \<and>
      map (\<lambda>c. (c_travel_time c, c_start_stop_name c, c_end_stop_name c)) cs' = []"
    by (simp only: map_eq_Cons_conv)
  then obtain c cs' where c: "cs = c # cs'"
    and f: "(c_travel_time c, c_start_stop_name c, c_end_stop_name c) = (60, ''Alpha'', ''Beta'')"
    and e: "map (\<lambda>c. (c_travel_time c, c_start_stop_name c, c_end_stop_name c)) cs' = []"
    by (elim exE conjE)
  from e have "cs' = []" by (simp only: map_is_Nil_conv)
  with c have c1: "cs = [c]" by (simp only:)
  from f have f1: "c_travel_time c = 60"
    and f2: "c_start_stop_name c = ''Alpha''" and f3: "c_end_stop_name c = ''Beta''"
    by (simp_all only: prod.inject)
  from cs c1 have dt: "distribution_times ex_world pts = Inr [c]" by (simp only:)
  show ?thesis
    by (rule exI [of _ c], intro conjI) (rule dt f1 f2 f3)+
qed

text \<open>
  Claim C7. When the aggregation of the crossings succeeds (no group has tied stop
  sequences), the crossings are pairwise different, the distribution rows are those of
  \<open>hourly_distribution_times\<close>, and every crossing occurs in them exactly once when its
  travel time lies strictly between 0 and the clip threshold, and not at all otherwise
  (a travel time of 0 or less, or at least the threshold). Every distribution row comes
  from such a crossing.
\<close>

theorem clip_filtering:
  assumes "distribution_times w pts = Inr cs"
  shows "hourly_distributions w clip pts = Inr (hourly_distribution_times clip cs) \<and>
    distinct cs \<and>
    (\<forall>c \<in> set cs.
       length (filter (\<lambda>d. dr_crossing d = c) (hourly_distribution_times clip cs)) =
         (if 0 < c_travel_time c \<and> c_travel_time c < clip then 1 else 0)) \<and>
    (\<forall>d \<in> set (hourly_distribution_times clip cs).
       dr_crossing d \<in> set cs \<and>
       0 < c_travel_time (dr_crossing d) \<and> c_travel_time (dr_crossing d) < clip)"
proof (intro conjI ballI)
  show "hourly_distributions w clip pts = Inr (hourly_distribution_times clip cs)"
    by (simp add: hourly_distributions_def assms)
  show d: "distinct cs" by (rule distinct_distribution_times [OF assms])
  show "length (filter (\<lambda>d. dr_crossing d = c) (hourly_distribution_times clip cs)) =
         (if 0 < c_travel_time c \<and> c_travel_time c < clip then 1 else 0)"
    if "c \<in> set cs" for c
  proof -
    from d that have "count (mset cs) c = 1" by (simp add: distinct_count_atmost_1)
    then show ?thesis
      unfolding length_filter_eq_count mset_hourly_distribution_times by simp
  qed
  fix d
  assume "d \<in> set (hourly_distribution_times clip cs)"
  then have "dr_crossing d \<in># mset (map dr_crossing (hourly_distribution_times clip cs))"
    by simp
  then have "dr_crossing d \<in> set (filter (\<lambda>c. c_travel_time c > 0 \<and> c_travel_time c < clip) cs)"
    unfolding mset_hourly_distribution_times by simp
  then show "dr_crossing d \<in> set cs" "0 < c_travel_time (dr_crossing d)"
    "c_travel_time (dr_crossing d) < clip"
    by simp_all
qed


text \<open>
  The crossing of the example route takes 60 s: with the default threshold of 1000 it is
  kept once, under the name of its two stops; with a threshold of 60 it is left out.
\<close>

theorem clip_filtering_witness:
  "\<exists>pts ri' c. points ex_world ex_route 0 = Inr (pts, ri') \<and>
     distribution_times ex_world pts = Inr [c] \<and> c_travel_time c = 60 \<and>
     length (filter (\<lambda>d. dr_crossing d = c) (hourly_distribution_times 1000 [c])) = 1 \<and>
     map segment_name (hourly_distribution_times 1000 [c]) = [''Alpha ... Beta''] \<and>
     length (filter (\<lambda>d. dr_crossing d = c) (hourly_distribution_times 60 [c])) = 0"
proof -
  have "\<exists>pts ri'. points ex_world ex_route 0 = Inr (pts, ri')"
    by (simp add: ex_defs points_defs enumerate_eq_zip)
  then obtain pts ri' where p: "points ex_world ex_route 0 = Inr (pts, ri')" by blast
  from ex_route_distribution_times [OF p] obtain c
    where dt: "distribution_times ex_world pts = Inr [c]" and tt: "c_travel_time c = 60"
      and names: "c_start_stop_name c = ''Alpha''" "c_end_stop_name c = ''Beta''"
    by blast
  have mem: "c \<in> set [c]" by simp
  from clip_filtering [OF dt, of 1000]
  have "\<forall>c' \<in> set [c].
       length (filter (\<lambda>d. dr_crossing d = c') (hourly_distribution_times 1000 [c])) =
         (if 0 < c_travel_time c' \<and> c_travel_time c' < 1000 then 1 else 0)"
    by (rule conjunct2 [THEN conjunct2, THEN conjunct1])
  then have "length (filter (\<lambda>d. dr_crossing d = c) (hourly_distribution_times 1000 [c])) =
         (if 0 < c_travel_time c \<and> c_travel_time c < 1000 then 1 else 0)"
    using mem by (rule bspec)
  then have one: "length (filter (\<lambda>d. dr_crossing d = c) (hourly_distribution_times 1000 [c])) = 1"
    unfolding tt by simp
  from clip_filtering [OF dt, of 60]
  have "\<forall>c' \<in> set [c].
       length (filter (\<lambda>d. dr_crossing d = c') (hourly_distribution_times 60 [c])) =
         (if 0 < c_travel_time c' \<and> c_travel_time c' < 60 then 1 else 0)"
    by (rule conjunct2 [THEN conjunct2, THEN conjunct1])
  then have "length (filter (\<lambda>d. dr_crossing d = c) (hourly_distribution_times 60 [c])) =
         (if 0 < c_travel_time c \<and> c_travel_time c < 60 then 1 else 0)"
    using mem by (rule bspec)
  then have zero: "length (filter (\<lambda>d. dr_crossing d = c) (hourly_distribution_times 60 [c])) = 0"
    unfolding tt by simp
  have nm: "map segment_name (hourly_distribution_times 1000 [c]) = [''Alpha ... Beta'']"
    by (simp add: hourly_distribution_times_def tt names)
  show ?thesis
    by (rule exI [of _ pts], rule exI [of _ ri'], rule exI [of _ c], intro conjI)
      (rule p dt tt one nm zero)+
qed

section \<open>The files written\<close>

lemma points_directions:
  assumes "points w ri d = Inr (pts, ri')"
  shows "directions ri' = directions ri"
proof (cases "ri_point_data ri d")
  case None
  from assms [unfolded points_fresh [OF None]]
  have "\<exists>rs. joined w ri d = Inr rs \<and> pts = \<lparr>frame_crs = EPSG26910, frame_rows = rs\<rparr> \<and>
      ri' = ri\<lparr>ri_point_data := (ri_point_data ri)(d \<mapsto> to_crs_points w WGS84 pts)\<rparr>"
    by (elim conjE)
  then obtain rs where
    "ri' = ri\<lparr>ri_point_data := (ri_point_data ri)(d \<mapsto> to_crs_points w WGS84 pts)\<rparr>"
    by (elim exE conjE)
  then show ?thesis by simp
next
  case (Some c)
  from points_cached_again [OF Some, of w] assms have "ri' = ri" by simp
  then show ?thesis by simp
qed

lemma finish_Some:
  assumes "finish ri d (Some dir) view fig = (Inr (fig', files), ri')"
  shows "\<exists>label. getitem (directions ri) d = Inr label \<and>
    files = [(dir, str_int d @ ''-'' @ label @ ''_'' @ view @ ''.html'', fig')]"
proof (cases "getitem (directions ri) d")
  case (Inl e)
  with assms show ?thesis by (simp add: finish_def write_html_def)
next
  case (Inr label)
  with assms have "files = [(dir, html_name d label view, fig)]" and "fig' = fig"
    by (auto simp: finish_def write_html_def)
  with Inr show ?thesis by (simp add: html_name_def)
qed

lemma finish_label:
  assumes "getitem (directions ri) d = Inr label"
  shows "finish ri d (Some dir) view fig =
    (Inr (fig, [(dir, str_int d @ ''-'' @ label @ ''_'' @ view @ ''.html'', fig)]), ri)"
  using assms by (simp add: finish_def write_html_def html_name_def)

lemma str_int_0: "str_int 0 = ''0''"
  by (simp add: str_int_def)

text \<open>
  Claim C9. Whenever one of the four plot functions returns its figure after a call with a
  save directory, it has written exactly one file, the figure, into that directory, and the
  name of the file is the direction, a hyphen, the label that \<^verbatim>\<open>self.directions\<close> holds for
  the direction, an underscore, the name of the view and \<^verbatim>\<open>.html\<close>. The views are called
  \<^verbatim>\<open>points\<close>, \<^verbatim>\<open>slow_zones\<close>, \<^verbatim>\<open>hourly_\<close> followed by the reference hour (\<^verbatim>\<open>None\<close> when there
  is none) and \<^verbatim>\<open>distr_hourly\<close>.
\<close>

theorem one_file_per_view:
  "(plot_points w ri d (Some dir) = (Inr (fig, files), ri') \<longrightarrow>
      (\<exists>label. getitem (directions ri) d = Inr label \<and>
         files = [(dir, str_int d @ ''-'' @ label @ ''_points.html'', fig)])) \<and>
   (plot_slow_zones w ri d threshold (Some dir) = (Inr (fig, files), ri') \<longrightarrow>
      (\<exists>label. getitem (directions ri) d = Inr label \<and>
         files = [(dir, str_int d @ ''-'' @ label @ ''_slow_zones.html'', fig)])) \<and>
   (plot_hourly w ri d reference_hour (Some dir) = (Inr (fig, files), ri') \<longrightarrow>
      (\<exists>label. getitem (directions ri) d = Inr label \<and>
         files = [(dir, str_int d @ ''-'' @ label @ ''_hourly_'' @ str_optional reference_hour @ ''.html'',
                   fig)])) \<and>
   (plot_hourly_distributions w ri d clip_threshold (Some dir) = (Inr (fig, files), ri') \<longrightarrow>
      (\<exists>label. getitem (directions ri) d = Inr label \<and>
         files = [(dir, str_int d @ ''-'' @ label @ ''_distr_hourly.html'', fig)]))"
proof (intro conjI impI)
  assume a: "plot_points w ri d (Some dir) = (Inr (fig, files), ri')"
  show "\<exists>label. getitem (directions ri) d = Inr label \<and>
         files = [(dir, str_int d @ ''-'' @ label @ ''_points.html'', fig)]"
  proof (cases "points w ri d")
    case (Inl e)
    with a show ?thesis by (simp add: plot_points_def)
  next
    case (Inr x)
    obtain pts ri1 where x: "x = (pts, ri1)" by (cases x)
    from a Inr x have "finish ri1 d (Some dir) ''points'' (ScatterMapbox pts) = (Inr (fig, files), ri')"
      by (simp add: plot_points_def)
    from finish_Some [OF this] points_directions [of w ri d pts ri1] Inr x
    show ?thesis by simp
  qed
next
  assume a: "plot_slow_zones w ri d threshold (Some dir) = (Inr (fig, files), ri')"
  show "\<exists>label. getitem (directions ri) d = Inr label \<and>
         files = [(dir, str_int d @ ''-'' @ label @ ''_slow_zones.html'', fig)]"
  proof (cases "points w ri d")
    case (Inl e)
    with a show ?thesis by (simp add: plot_slow_zones_def)
  next
    case (Inr x)
    obtain pts ri1 where x: "x = (pts, ri1)" by (cases x)
    from a Inr x have "\<exists>f. finish ri1 d (Some dir) ''slow_zones'' f = (Inr (fig, files), ri')"
      by (auto simp: plot_slow_zones_def)
    then obtain f where "finish ri1 d (Some dir) ''slow_zones'' f = (Inr (fig, files), ri')" ..
    from finish_Some [OF this] points_directions [of w ri d pts ri1] Inr x
    show ?thesis by simp
  qed
next
  assume a: "plot_hourly w ri d reference_hour (Some dir) = (Inr (fig, files), ri')"
  show "\<exists>label. getitem (directions ri) d = Inr label \<and>
         files = [(dir, str_int d @ ''-'' @ label @ ''_hourly_'' @ str_optional reference_hour @ ''.html'',
                   fig)]"
  proof (cases "points w ri d")
    case (Inl e)
    with a show ?thesis by (simp add: plot_hourly_def)
  next
    case (Inr x)
    obtain pts ri1 where x: "x = (pts, ri1)" by (cases x)
    show ?thesis
    proof (cases "hourly_statistics w pts reference_hour")
      case (Inl e)
      with a Inr x show ?thesis by (simp add: plot_hourly_def)
    next
      case rows: (Inr rows)
      show ?thesis
      proof (cases "rows = []")
        case True
        with a Inr x rows show ?thesis by (simp add: plot_hourly_def)
      next
        case False
        with a Inr x rows
        have "\<exists>f. finish ri1 d (Some dir) (''hourly_'' @ str_optional reference_hour) f =
            (Inr (fig, files), ri')"
          by (auto simp: plot_hourly_def)
        then obtain f where "finish ri1 d (Some dir) (''hourly_'' @ str_optional reference_hour) f =
            (Inr (fig, files), ri')" ..
        from finish_Some [OF this] points_directions [of w ri d pts ri1] Inr x
        show ?thesis by simp
      qed
    qed
  qed
next
  assume a: "plot_hourly_distributions w ri d clip_threshold (Some dir) = (Inr (fig, files), ri')"
  show "\<exists>label. getitem (directions ri) d = Inr label \<and>
         files = [(dir, str_int d @ ''-'' @ label @ ''_distr_hourly.html'', fig)]"
  proof (cases "points w ri d")
    case (Inl e)
    with a show ?thesis by (simp add: plot_hourly_distributions_def)
  next
    case (Inr x)
    obtain pts ri1 where x: "x = (pts, ri1)" by (cases x)
    show ?thesis
    proof (cases "hourly_distributions w clip_threshold pts")
      case (Inl e)
      with a Inr x show ?thesis by (simp add: plot_hourly_distributions_def)
    next
      case rows: (Inr rows)
      with a Inr x
      have "\<exists>f. finish ri1 d (Some dir) ''distr_hourly'' f = (Inr (fig, files), ri')"
        by (auto simp: plot_hourly_distributions_def)
      then obtain f where "finish ri1 d (Some dir) ''distr_hourly'' f = (Inr (fig, files), ri')" ..
      from finish_Some [OF this] points_directions [of w ri d pts ri1] Inr x
      show ?thesis by simp
    qed
  qed
qed

text \<open>
  The example route, direction 0 with the label Royal Oak, saved to the directory
  \<^verbatim>\<open>figures\<close>: each of the four plot functions returns its figure and writes one file.
\<close>

theorem one_file_per_view_witness:
  "(\<exists>fig files ri'. plot_points ex_world ex_route 0 (Some ''figures'') = (Inr (fig, files), ri') \<and>
      map (\<lambda>(dir, name, f). (dir, name)) files = [(''figures'', ''0-Royal Oak_points.html'')]) \<and>
   (\<exists>fig files ri'. plot_slow_zones ex_world ex_route 0 10 (Some ''figures'') = (Inr (fig, files), ri') \<and>
      map (\<lambda>(dir, name, f). (dir, name)) files = [(''figures'', ''0-Royal Oak_slow_zones.html'')]) \<and>
   (\<exists>fig files ri'. plot_hourly ex_world ex_route 0 None (Some ''figures'') = (Inr (fig, files), ri') \<and>
      map (\<lambda>(dir, name, f). (dir, name)) files = [(''figures'', ''0-Royal Oak_hourly_None.html'')]) \<and>
   (\<exists>fig files ri'. plot_hourly_distributions ex_world ex_route 0 1000 (Some ''figures'') =
        (Inr (fig, files), ri') \<and>
      map (\<lambda>(dir, name, f). (dir, name)) files = [(''figures'', ''0-Royal Oak_distr_hourly.html'')])"
proof -
  have "\<exists>pts ri'. points ex_world ex_route 0 = Inr (pts, ri')"
    by (simp add: ex_defs points_defs enumerate_eq_zip)
  then obtain pts ri1 where p: "points ex_world ex_route 0 = Inr (pts, ri1)" by blast
  have label: "getitem (directions ex_route) 0 = Inr ''Royal Oak''"
    by (simp add: getitem_def ex_defs)
  have "directions ri1 = directions ex_route" by (rule points_directions [OF p])
  with label have label1: "getitem (directions ri1) 0 = Inr ''Royal Oak''" by simp
  note fin = finish_label [OF label1, of "''figures''"]
  have name: "\<And>files fig view.
      \<exists>label. getitem (directions ex_route) 0 = Inr label \<and>
        files = [(''figures'', str_int 0 @ ''-'' @ label @ view, fig)] \<Longrightarrow>
      map (\<lambda>(dir, name, f). (dir, name)) files = [(''figures'', ''0-Royal Oak'' @ view)]"
    by (auto simp: label str_int_0)
  have e1: "\<exists>fig files ri'. plot_points ex_world ex_route 0 (Some ''figures'') = (Inr (fig, files), ri')"
    by (simp add: plot_points_def p fin)
  have e2: "\<exists>fig files ri'. plot_slow_zones ex_world ex_route 0 10 (Some ''figures'') =
      (Inr (fig, files), ri')"
    by (simp add: plot_slow_zones_def p fin)
  have "8 \<in> hs_hour_of_day ` set (hourly_segment_times (segment_times ex_world pts))"
    unfolding hour_has_row using ex_route_segment_times [OF p] by (auto simp: map_eq_Cons_conv)
  then have "hourly_segment_times (segment_times ex_world pts) \<noteq> []" by auto
  then have e3: "\<exists>fig files ri'. plot_hourly ex_world ex_route 0 None (Some ''figures'') =
      (Inr (fig, files), ri')"
    by (simp add: plot_hourly_def p fin hourly_statistics_def with_reference_def)
  from ex_route_distribution_times [OF p] obtain c where "distribution_times ex_world pts = Inr [c]"
    by blast
  then have e4: "\<exists>fig files ri'. plot_hourly_distributions ex_world ex_route 0 1000 (Some ''figures'') =
      (Inr (fig, files), ri')"
    by (simp add: plot_hourly_distributions_def p fin hourly_distributions_def)
  from e1 obtain fig1 files1 r1
    where v1: "plot_points ex_world ex_route 0 (Some ''figures'') = (Inr (fig1, files1), r1)"
    by blast
  from e2 obtain fig2 files2 r2
    where v2: "plot_slow_zones ex_world ex_route 0 10 (Some ''figures'') = (Inr (fig2, files2), r2)"
    by blast
  from e3 obtain fig3 files3 r3
    where v3: "plot_hourly ex_world ex_route 0 None (Some ''figures'') = (Inr (fig3, files3), r3)"
    by blast
  from e4 obtain fig4 files4 r4
    where v4: "plot_hourly_distributions ex_world ex_route 0 1000 (Some ''figures'') =
      (Inr (fig4, files4), r4)"
    by blast
  have "\<exists>label. getitem (directions ex_route) 0 = Inr label \<and>
      files1 = [(''figures'', str_int 0 @ ''-'' @ label @ ''_points.html'', fig1)]"
    by (rule one_file_per_view [of ex_world ex_route 0 "''figures''" fig1 files1 r1, THEN conjunct1, THEN mp, OF v1])
  then have n1: "map (\<lambda>(dir, name, f). (dir, name)) files1 = [(''figures'', ''0-Royal Oak_points.html'')]"
    using name [of files1 "''_points.html''" fig1] by simp
  have "\<exists>label. getitem (directions ex_route) 0 = Inr label \<and>
      files2 = [(''figures'', str_int 0 @ ''-'' @ label @ ''_slow_zones.html'', fig2)]"
    by (rule one_file_per_view [of ex_world ex_route 0 "''figures''" fig2 files2 r2 10, THEN conjunct2, THEN conjunct1, THEN mp, OF v2])
  then have n2: "map (\<lambda>(dir, name, f). (dir, name)) files2 = [(''figures'', ''0-Royal Oak_slow_zones.html'')]"
    using name [of files2 "''_slow_zones.html''" fig2] by simp
  have "\<exists>label. getitem (directions ex_route) 0 = Inr label \<and>
      files3 = [(''figures'', str_int 0 @ ''-'' @ label @ ''_hourly_'' @ str_optional None @ ''.html'', fig3)]"
    by (rule one_file_per_view [of ex_world ex_route 0 "''figures''" fig3 files3 r3 _ None, THEN conjunct2, THEN conjunct2, THEN conjunct1, THEN mp, OF v3])
  then have n3: "map (\<lambda>(dir, name, f). (dir, name)) files3 = [(''figures'', ''0-Royal Oak_hourly_None.html'')]"
    using name [of files3 "''_hourly_None.html''" fig3] by (simp add: str_optional_def)
  have "\<exists>label. getitem (directions ex_route) 0 = Inr label \<and>
      files4 = [(''figures'', str_int 0 @ ''-'' @ label @ ''_distr_hourly.html'', fig4)]"
    by (rule one_file_per_view [of ex_world ex_route 0 "''figures''" fig4 files4 r4 _ _ 1000, THEN conjunct2, THEN conjunct2, THEN conjunct2, THEN mp, OF v4])
  then have n4: "map (\<lambda>(dir, name, f). (dir, name)) files4 = [(''figures'', ''0-Royal Oak_distr_hourly.html'')]"
    using name [of files4 "''_distr_hourly.html''" fig4] by simp
  show ?thesis
    by (intro conjI; intro exI conjI) (rule v1 n1 v2 n2 v3 n3 v4 n4)+
qed

end
